theory Spec2Isabelle
  imports Main
begin

section \<open>The per-peer Electrum interface of electrum-nmc (\<^verbatim>\<open>electrum_nmc/interface.py\<close>)\<close>

text \<open>
  A shallow embedding of \<^verbatim>\<open>interface.py\<close>: the server address codec, the notification
  session (subscription cache), the checkpoint validator, the header fetchers and the
  header synchronisation state machine. Python exceptions are values of \<open>error\<close>
  (\<open>Inl\<close> of a sum), \<^verbatim>\<open>self\<close> is a record passed in and returned, and the
  collaborators that live in other modules (\<^verbatim>\<open>blockchain\<close>, \<^verbatim>\<open>constants\<close>, \<^verbatim>\<open>crypto\<close>,
  \<^verbatim>\<open>util\<close>, the remote server) are parameters.
\<close>

subsection \<open>Exceptions\<close>

datatype error =
    ValueError string
  | TypeError string
  | KeyError string
  | IndexError string
  | AssertionError string
  | Exception string
  | GracefulDisconnect string
  | RequestTimedOut string
  | RPCError string
  | AttributeError string

subsection \<open>Python built-ins used by the address codec\<close>

text \<open>
  \<^verbatim>\<open>int(s)\<close> for a \<^verbatim>\<open>str\<close>, base 10: the whitespace around the number is skipped,
  one sign is allowed, then decimal digits, where single underscores may separate digits
  (Python 3.6 and later, which the program requires). Strings are lists of 8-bit
  characters here, so the code points are those below 256, and the decimal digits among
  them are \<open>0\<close> to \<open>9\<close>. The whitespace that \<^verbatim>\<open>int()\<close> skips is narrower than that of
  \<^verbatim>\<open>str.isspace\<close>: the ASCII characters tab, line feed, vertical tab, form feed,
  carriage return and space (9 to 13 and 32), and next line and no-break space (133 and
  160); the separators 28 to 31 are not skipped, so \<^verbatim>\<open>int('\x1f80')\<close> raises. The limit
  that recent versions of Python put on the number of digits is left out.
\<close>

definition int_isspace :: "char \<Rightarrow> bool" where
  "int_isspace c = (of_char c \<in> {9, 10, 11, 12, 13, 32, 133, 160 :: nat})"

definition int_strip :: "string \<Rightarrow> string" where
  "int_strip s = rev (dropWhile int_isspace (rev (dropWhile int_isspace s)))"

definition is_digit :: "char \<Rightarrow> bool" where
  "is_digit c = (c \<in> set ''0123456789'')"

definition digit_val :: "char \<Rightarrow> int" where
  "digit_val c = int (of_char c) - 48"

fun parse_digits :: "int \<Rightarrow> string \<Rightarrow> int option" where
  "parse_digits acc [] = Some acc"
| "parse_digits acc (c # cs) =
     (if is_digit c then parse_digits (acc * 10 + digit_val c) cs
      else if c = CHR ''_'' then
        (case cs of
           [] \<Rightarrow> None
         | d # ds \<Rightarrow> if is_digit d then parse_digits (acc * 10 + digit_val d) ds else None)
      else None)"

definition py_int_digits :: "string \<Rightarrow> int option" where
  "py_int_digits s =
     (case s of [] \<Rightarrow> None
      | c # cs \<Rightarrow> if is_digit c then parse_digits (digit_val c) cs else None)"

text \<open>\<open>None\<close> is the \<^verbatim>\<open>ValueError\<close> of \<^verbatim>\<open>int()\<close>.\<close>

definition py_int :: "string \<Rightarrow> int option" where
  "py_int s =
     (case int_strip s of
        [] \<Rightarrow> None
      | c # cs \<Rightarrow>
          if c = CHR ''+'' then py_int_digits cs
          else if c = CHR ''-'' then map_option uminus (py_int_digits cs)
          else py_int_digits (c # cs))"

text \<open>\<^verbatim>\<open>str(n)\<close> for an \<^verbatim>\<open>int\<close>: the decimal digits, after a minus sign when negative.\<close>

definition digit_char :: "nat \<Rightarrow> char" where
  "digit_char d = ''0123456789'' ! d"

fun dec_digits :: "nat \<Rightarrow> string" where
  "dec_digits n = (if n < 10 then [digit_char n] else dec_digits (n div 10) @ [digit_char (n mod 10)])"

declare dec_digits.simps [simp del]

definition py_str_int :: "int \<Rightarrow> string" where
  "py_str_int n = (if n < 0 then CHR ''-'' # dec_digits (nat (- n)) else dec_digits (nat n))"

text \<open>
  The \<^verbatim>\<open>port\<close> argument of \<^verbatim>\<open>serialize_server\<close> is annotated \<^verbatim>\<open>Union[str, int]\<close>;
  \<^verbatim>\<open>str(port)\<close> is the identity on a \<^verbatim>\<open>str\<close>.
\<close>

datatype port_arg = PortStr string | PortInt int

fun py_str :: "port_arg \<Rightarrow> string" where
  "py_str (PortStr s) = s"
| "py_str (PortInt n) = py_str_int n"

text \<open>\<^verbatim>\<open>sep.join(xs)\<close>.\<close>

fun py_join :: "string \<Rightarrow> string list \<Rightarrow> string" where
  "py_join sep [] = []"
| "py_join sep [x] = x"
| "py_join sep (x # y # ys) = x @ sep @ py_join sep (y # ys)"

text \<open>
  \<^verbatim>\<open>s.rsplit(c, n)\<close> for a one-character separator: at most \<open>n\<close> splits, taken from the
  right. \<open>split_last\<close> cuts a string at its last separator.
\<close>

definition split_last :: "char \<Rightarrow> string \<Rightarrow> (string \<times> string) option" where
  "split_last c s =
     (if c \<in> set s
      then Some (rev (tl (dropWhile (\<lambda>x. x \<noteq> c) (rev s))), rev (takeWhile (\<lambda>x. x \<noteq> c) (rev s)))
      else None)"

fun py_rsplit :: "char \<Rightarrow> nat \<Rightarrow> string \<Rightarrow> string list" where
  "py_rsplit c 0 s = [s]"
| "py_rsplit c (Suc n) s =
     (case split_last c s of
        None \<Rightarrow> [s]
      | Some (a, b) \<Rightarrow> py_rsplit c n a @ [b])"

subsection \<open>Server address codec\<close>

text \<open>
  \<^verbatim>\<open>deserialize_server\<close>: the unpacking of the \<^verbatim>\<open>rsplit\<close> result into three names
  raises \<^verbatim>\<open>ValueError\<close> unless there are exactly three fields. The port is returned as
  the string it was parsed from (the return type is \<^verbatim>\<open>Tuple[str, str, str]\<close>).
\<close>

definition deserialize_server :: "string \<Rightarrow> error + (string \<times> string \<times> string)" where
  "deserialize_server server_str =
     (case py_rsplit (CHR '':'') 2 server_str of
        [host, port, protocol] \<Rightarrow>
          if host = [] then Inl (ValueError ''host must not be empty'')
          else if protocol \<notin> {''s'', ''t''} then Inl (ValueError ''invalid network protocol'')
          else (case py_int port of
                  None \<Rightarrow> Inl (ValueError ''invalid literal for int() with base 10'')
                | Some p \<Rightarrow>
                    if \<not> (0 < p \<and> p < 2 ^ 16) then Inl (ValueError ''port is out of valid range'')
                    else Inr (host, port, protocol))
      | _ \<Rightarrow> Inl (ValueError ''not enough values to unpack''))"

definition serialize_server :: "string \<Rightarrow> port_arg \<Rightarrow> string \<Rightarrow> string" where
  "serialize_server host port protocol = py_join '':'' [host, py_str port, protocol]"

text \<open>The number a port argument stands for: itself, or \<^verbatim>\<open>int(port)\<close> for a string.\<close>

definition port_value :: "port_arg \<Rightarrow> int option" where
  "port_value p = (case p of PortInt n \<Rightarrow> Some n | PortStr s \<Rightarrow> py_int s)"

text \<open>
  Python's \<^verbatim>\<open>deserialize_server(serialize_server(host, port, protocol)) == (host, port, protocol)\<close>:
  the call returns, and the tuples are equal component by component. The returned port
  is a \<^verbatim>\<open>str\<close>, and a \<^verbatim>\<open>str\<close> is never equal to an \<^verbatim>\<open>int\<close>.
\<close>

definition roundtrip_exact :: "string \<Rightarrow> port_arg \<Rightarrow> string \<Rightarrow> bool" where
  "roundtrip_exact host port protocol =
     (case deserialize_server (serialize_server host port protocol) of
        Inl e \<Rightarrow> False
      | Inr (host', port', protocol') \<Rightarrow> host' = host \<and> PortStr port' = port \<and> protocol' = protocol)"

subsection \<open>Properties of the address codec\<close>

lemma split_last_app: "c \<notin> set b \<Longrightarrow> split_last c (a @ c # b) = Some (a, b)"
proof -
  assume h: "c \<notin> set b"
  have t: "takeWhile (\<lambda>x. x \<noteq> c) (rev b @ c # rev a) = rev b"
    using h by (subst takeWhile_append2) auto
  have d: "dropWhile (\<lambda>x. x \<noteq> c) (rev b @ c # rev a) = c # rev a"
    using h by (subst dropWhile_append2) auto
  show ?thesis by (simp add: split_last_def t d)
qed

lemma py_rsplit_three:
  "CHR '':'' \<notin> set port \<Longrightarrow> CHR '':'' \<notin> set protocol \<Longrightarrow>
   py_rsplit (CHR '':'') 2 (host @ CHR '':'' # port @ CHR '':'' # protocol) = [host, port, protocol]"
proof -
  assume p: "CHR '':'' \<notin> set port" and q: "CHR '':'' \<notin> set protocol"
  have a: "split_last (CHR '':'') ((host @ CHR '':'' # port) @ CHR '':'' # protocol) = Some (host @ CHR '':'' # port, protocol)"
    using q by (rule split_last_app)
  have b: "split_last (CHR '':'') (host @ CHR '':'' # port) = Some (host, port)"
    using p by (rule split_last_app)
  have "py_rsplit (CHR '':'') (Suc (Suc 0)) ((host @ CHR '':'' # port) @ CHR '':'' # protocol) = [host, port, protocol]"
    by (simp only: py_rsplit.simps a b option.case prod.case append.simps)
  then show ?thesis by (simp add: numeral_2_eq_2)
qed

lemma digit_char_props: "d < 10 \<Longrightarrow> digit_val (digit_char d) = int d \<and> is_digit (digit_char d) \<and> \<not> int_isspace (digit_char d) \<and> digit_char d \<noteq> CHR '':'' \<and> digit_char d \<noteq> CHR ''+'' \<and> digit_char d \<noteq> CHR ''-''"
proof -
  assume "d < 10"
  then have "d \<in> {0,1,2,3,4,5,6,7,8,9}" by auto
  then show ?thesis
    by (auto simp: digit_char_def digit_val_def is_digit_def int_isspace_def)
qed

lemma parse_digits_snoc:
  "\<forall>c \<in> set xs. is_digit c \<Longrightarrow> parse_digits acc xs = Some v \<Longrightarrow> is_digit c
   \<Longrightarrow> parse_digits acc (xs @ [c]) = Some (v * 10 + digit_val c)"
  by (induction xs arbitrary: acc) auto

lemma dec_digits_parse:
  "parse_digits 0 (dec_digits n) = Some (int n) \<and> (\<forall>c \<in> set (dec_digits n). is_digit c) \<and> dec_digits n \<noteq> []"
proof (induction n rule: dec_digits.induct)
  case (1 n)
  show ?case
  proof (cases "n < 10")
    case True
    then show ?thesis by (simp add: dec_digits.simps[of n] digit_char_props)
  next
    case False
    have m: "n mod 10 < 10" by simp
    from False 1 have ih: "parse_digits 0 (dec_digits (n div 10)) = Some (int (n div 10))"
      "\<forall>c \<in> set (dec_digits (n div 10)). is_digit c" by auto
    have "parse_digits 0 (dec_digits (n div 10) @ [digit_char (n mod 10)]) = Some (int (n div 10) * 10 + digit_val (digit_char (n mod 10)))"
      using ih digit_char_props[OF m] by (intro parse_digits_snoc) auto
    moreover have "int (n div 10) * 10 + int (n mod 10) = int n"
      by (simp add: zdiv_int zmod_int)
    ultimately show ?thesis using False ih digit_char_props[OF m]
      by (simp add: dec_digits.simps[of n])
  qed
qed

lemma dec_digits_chars:
  "c \<in> set (dec_digits n) \<Longrightarrow> is_digit c"
  using dec_digits_parse by blast

lemma is_digit_not_special:
  "is_digit c \<Longrightarrow> \<not> int_isspace c \<and> c \<noteq> CHR '':'' \<and> c \<noteq> CHR ''+'' \<and> c \<noteq> CHR ''-'' \<and> c \<noteq> CHR ''_''"
  by (auto simp: is_digit_def int_isspace_def)

lemma int_strip_id:
  "s \<noteq> [] \<Longrightarrow> \<not> int_isspace (hd s) \<Longrightarrow> \<not> int_isspace (last s) \<Longrightarrow> int_strip s = s"
proof -
  assume a: "s \<noteq> []" "\<not> int_isspace (hd s)" "\<not> int_isspace (last s)"
  then have "dropWhile int_isspace s = s" by (cases s) auto
  moreover have "dropWhile int_isspace (rev s) = rev s"
    using a by (cases "rev s") (auto simp: hd_rev)
  ultimately show ?thesis by (simp add: int_strip_def)
qed

lemma py_int_digits_all:
  "s \<noteq> [] \<Longrightarrow> \<forall>c \<in> set s. is_digit c \<Longrightarrow> py_int s = parse_digits 0 s"
proof -
  assume a: "s \<noteq> []" "\<forall>c \<in> set s. is_digit c"
  then have "int_strip s = s"
    by (intro int_strip_id) (auto simp: is_digit_not_special)
  moreover obtain c cs where s: "s = c # cs" using a by (cases s) auto
  moreover have "is_digit c" using a s by simp
  ultimately show ?thesis
    using is_digit_not_special[of c] by (simp add: py_int_def py_int_digits_def)
qed

lemma py_int_str_nat: "py_int (dec_digits n) = Some (int n)"
  using dec_digits_parse[of n] by (simp add: py_int_digits_all)

lemma py_int_py_str_int: "0 \<le> n \<Longrightarrow> py_int (py_str_int n) = Some n"
  by (simp add: py_str_int_def py_int_str_nat)

lemma set_dropWhile_keep: "x \<in> set xs \<Longrightarrow> \<not> P x \<Longrightarrow> x \<in> set (dropWhile P xs)"
  by (induction xs) auto

lemma int_strip_keep: "x \<in> set s \<Longrightarrow> \<not> int_isspace x \<Longrightarrow> x \<in> set (int_strip s)"
  by (simp add: int_strip_def set_dropWhile_keep)

lemma parse_digits_chars:
  "parse_digits acc s = Some v \<Longrightarrow> c \<in> set s \<Longrightarrow> is_digit c \<or> c = CHR ''_''"
  by (induction acc s rule: parse_digits.induct) (auto split: if_splits list.splits)

lemma py_int_digits_chars:
  "py_int_digits s = Some v \<Longrightarrow> c \<in> set s \<Longrightarrow> is_digit c \<or> c = CHR ''_''"
  by (auto simp: py_int_digits_def split: list.splits if_splits dest: parse_digits_chars)

lemma py_int_no_colon: "py_int s = Some v \<Longrightarrow> CHR '':'' \<notin> set s"
proof
  assume v: "py_int s = Some v" and c: "CHR '':'' \<in> set s"
  have "\<not> int_isspace (CHR '':'')" by (simp add: int_isspace_def)
  with c have m: "CHR '':'' \<in> set (int_strip s)" by (rule int_strip_keep)
  then obtain x xs where e: "int_strip s = x # xs" by (cases "int_strip s") auto
  have nd: "\<not> is_digit (CHR '':'')" by (simp add: is_digit_def)
  show False
  proof (cases "x = CHR ''+'' \<or> x = CHR ''-''")
    case True
    then obtain w where "py_int_digits xs = Some w"
      using v e by (auto simp: py_int_def)
    moreover have "CHR '':'' \<in> set xs" using m e True by auto
    ultimately show False using nd by (auto dest: py_int_digits_chars)
  next
    case False
    then have "py_int_digits (x # xs) = Some v"
      using v e by (auto simp: py_int_def)
    then show False using m e nd by (auto dest: py_int_digits_chars)
  qed
qed

lemma py_str_port_no_colon:
  "port_value p = Some n \<Longrightarrow> 0 \<le> n \<Longrightarrow> CHR '':'' \<notin> set (py_str p) \<and> py_int (py_str p) = Some n"
proof (cases p)
  case (PortStr s)
  assume "port_value p = Some n"
  with PortStr show ?thesis by (simp add: port_value_def py_int_no_colon)
next
  case (PortInt k)
  assume "port_value p = Some n" "0 \<le> n"
  with PortInt have k: "k = n" "0 \<le> k" by (simp_all add: port_value_def)
  then have "py_int (py_str_int k) = Some k" by (simp add: py_int_py_str_int)
  then show ?thesis using PortInt k by (simp add: py_int_no_colon)
qed

lemma serialize_server_eq:
  "serialize_server host port protocol = host @ CHR '':'' # py_str port @ CHR '':'' # protocol"
  by (simp add: serialize_server_def)

lemma deserialize_fields:
  "py_rsplit (CHR '':'') 2 s = [host, port, protocol] \<Longrightarrow>
   deserialize_server s =
     (if host = [] then Inl (ValueError ''host must not be empty'')
      else if protocol \<notin> {''s'', ''t''} then Inl (ValueError ''invalid network protocol'')
      else (case py_int port of
              None \<Rightarrow> Inl (ValueError ''invalid literal for int() with base 10'')
            | Some p \<Rightarrow>
                if \<not> (0 < p \<and> p < 2 ^ 16) then Inl (ValueError ''port is out of valid range'')
                else Inr (host, port, protocol)))"
  by (simp add: deserialize_server_def)

lemma deserialize_serialize_valid:
  assumes "host \<noteq> []" "port_value port = Some n" "0 < n" "n < 65536" "protocol \<in> {''t'', ''s''}"
  shows "deserialize_server (serialize_server host port protocol) = Inr (host, py_str port, protocol)"
proof -
  have p: "CHR '':'' \<notin> set (py_str port)" "py_int (py_str port) = Some n"
    using assms py_str_port_no_colon[of port n] by simp_all
  from assms have q: "CHR '':'' \<notin> set protocol" by auto
  have "py_rsplit (CHR '':'') 2 (serialize_server host port protocol) = [host, py_str port, protocol]"
    unfolding serialize_server_eq using p(1) q by (rule py_rsplit_three)
  then show ?thesis
    using assms p(2) by (auto simp: deserialize_fields)
qed

lemma deserialize_rejects:
  assumes "CHR '':'' \<notin> set field2" "CHR '':'' \<notin> set field3"
    and "field1 = [] \<or> py_int field2 = None \<or> (\<exists>k. py_int field2 = Some k \<and> (k \<le> 0 \<or> 65536 \<le> k))
          \<or> field3 \<notin> {''t'', ''s''}"
  shows "isl (deserialize_server (field1 @ '':'' @ field2 @ '':'' @ field3))"
proof -
  have "py_rsplit (CHR '':'') 2 (field1 @ CHR '':'' # field2 @ CHR '':'' # field3) = [field1, field2, field3]"
    using assms(1,2) by (rule py_rsplit_three)
  then show ?thesis
    using assms(3) by (auto simp: deserialize_fields split: option.splits)
qed

text \<open>
  Claim C8, as amended. For every valid triple (a non-empty host, a port that is an
  \<^verbatim>\<open>int\<close> or a numeric string with \<open>0 < int(port) < 65536\<close>, a protocol among \<open>t\<close> and
  \<open>s\<close>), \<^verbatim>\<open>deserialize_server(serialize_server(host, port, protocol))\<close> returns
  \<^verbatim>\<open>(host, str(port), protocol)\<close>: the port comes back as a string, so the result equals
  the argument triple exactly when the port was passed as a string. And
  \<^verbatim>\<open>deserialize_server\<close> raises on \<^verbatim>\<open>field1:field2:field3\<close> (the last two fields free of
  colons) when the host field is empty, the port field is not numeric or is out of
  range, or the protocol field is neither \<open>t\<close> nor \<open>s\<close>.
\<close>

theorem deserialize_serialize_server:
  "(host \<noteq> [] \<and> port_value port = Some n \<and> 0 < n \<and> n < 65536 \<and> protocol \<in> {''t'', ''s''}
      \<longrightarrow> deserialize_server (serialize_server host port protocol) = Inr (host, py_str port, protocol)
          \<and> (roundtrip_exact host port protocol \<longleftrightarrow> (\<exists>s. port = PortStr s)))
   \<and> (CHR '':'' \<notin> set field2 \<and> CHR '':'' \<notin> set field3 \<and>
        (field1 = [] \<or> py_int field2 = None \<or> (\<exists>k. py_int field2 = Some k \<and> (k \<le> 0 \<or> 65536 \<le> k))
          \<or> field3 \<notin> {''t'', ''s''})
      \<longrightarrow> isl (deserialize_server (field1 @ '':'' @ field2 @ '':'' @ field3)))"
proof (intro conjI impI)
  assume a: "host \<noteq> [] \<and> port_value port = Some n \<and> 0 < n \<and> n < 65536 \<and> protocol \<in> {''t'', ''s''}"
  then show r: "deserialize_server (serialize_server host port protocol) = Inr (host, py_str port, protocol)"
    using deserialize_serialize_valid [of host port n protocol] by simp
  show "roundtrip_exact host port protocol \<longleftrightarrow> (\<exists>s. port = PortStr s)"
    using r by (cases port) (simp_all add: roundtrip_exact_def)
next
  assume "CHR '':'' \<notin> set field2 \<and> CHR '':'' \<notin> set field3 \<and>
        (field1 = [] \<or> py_int field2 = None \<or> (\<exists>k. py_int field2 = Some k \<and> (k \<le> 0 \<or> 65536 \<le> k))
          \<or> field3 \<notin> {''t'', ''s''})"
  then show "isl (deserialize_server (field1 @ '':'' @ field2 @ '':'' @ field3))"
    using deserialize_rejects [of field2 field3 field1] by blast
qed

theorem deserialize_serialize_server_witness:
  "port_value (PortInt 50002) = Some 50002
   \<and> deserialize_server (serialize_server ''2001:db8::1'' (PortInt 50002) ''s'')
       = Inr (''2001:db8::1'', ''50002'', ''s'')
   \<and> \<not> roundtrip_exact ''2001:db8::1'' (PortInt 50002) ''s''
   \<and> py_int ''50002'' = Some 50002
   \<and> isl (deserialize_server '':50002:s'')
   \<and> port_value (PortStr ''8_0'') = Some 80
   \<and> roundtrip_exact ''example.org'' (PortStr ''8_0'') ''t''
   \<and> py_int (CHR 0x1F # ''80'') = None
   \<and> isl (deserialize_server (''h:'' @ CHR 0x1F # ''80:s''))"
proof -
  have v: "port_value (PortInt 50002) = Some 50002" by (simp add: port_value_def)
  have s: "py_str (PortInt 50002) = ''50002''"
    by (simp add: py_str_int_def dec_digits.simps digit_char_def)
  have i: "py_int ''50002'' = Some 50002"
    by (simp add: py_int_def int_strip_def int_isspace_def py_int_digits_def is_digit_def digit_val_def)
  have u: "port_value (PortStr ''8_0'') = Some 80"
    by (simp add: port_value_def py_int_def int_strip_def int_isspace_def py_int_digits_def is_digit_def digit_val_def)
  have n: "py_int (CHR 0x1F # ''80'') = None"
    by (simp add: py_int_def int_strip_def int_isspace_def py_int_digits_def is_digit_def)
  show ?thesis
    using deserialize_serialize_server [of "''2001:db8::1''" "PortInt 50002" 50002 "''s''"
        "''50002''" "''s''" "[]"]
      deserialize_serialize_server [of "''example.org''" "PortStr ''8_0''" 80 "''t''"
        "CHR 0x1F # ''80''" "''s''" "''h''"] v s i u n
    by simp
qed

text \<open>
  The claim as stated fails for an \<^verbatim>\<open>int\<close> port: \<^verbatim>\<open>serialize_server('example.org', 50002, 's')\<close>
  is \<^verbatim>\<open>'example.org:50002:s'\<close>, which parses to \<^verbatim>\<open>('example.org', '50002', 's')\<close>, and
  \<^verbatim>\<open>'50002' != 50002\<close>.
\<close>

theorem roundtrip_int_port_counterexample:
  "\<not> roundtrip_exact ''example.org'' (PortInt 50002) ''s''"
proof -
  have v: "port_value (PortInt 50002) = Some 50002" by (simp add: port_value_def)
  have "deserialize_server (serialize_server ''example.org'' (PortInt 50002) ''s'')
          = Inr (''example.org'', py_str (PortInt 50002), ''s'')"
    using v deserialize_serialize_valid [of "''example.org''" "PortInt 50002" 50002 "''s''"] by simp
  then show ?thesis by (simp add: roundtrip_exact_def)
qed

subsection \<open>Notification session\<close>

text \<open>
  Values exchanged with the server are JSON values. A \<^verbatim>\<open>NotificationSession\<close> holds the
  subscription table (a \<^verbatim>\<open>defaultdict(list)\<close> from keys to queues), the cache, the frame
  size limit it sets on its framer, the default timeout and the message counter. Queues
  are objects shared with their consumers: \<open>queues\<close> is the store of their contents,
  indexed by the identity of the queue, and \<open>sent\<close> is the log of the requests that
  reached the network. Scheduling between coroutines is not modelled: every operation
  runs to completion.
\<close>

datatype json = JNull | JBool bool | JInt int | JStr string | JList "json list" | JDict "(string \<times> json) list"

record session =
  subscriptions :: "string \<rightharpoonup> nat list"
  cache :: "string \<rightharpoonup> json"
  framer_max_size :: int
  default_timeout :: int
  msg_counter :: int
  queues :: "nat \<Rightarrow> json list list"
  sent :: "(string \<times> json list) list"

text \<open>\<^verbatim>\<open>NotificationSession.__init__\<close>; the default timeout is \<^verbatim>\<open>NetworkTimeout.Generic.NORMAL\<close>.\<close>

definition NotificationSession_init :: session where
  "NotificationSession_init =
     \<lparr> subscriptions = Map.empty, cache = Map.empty, framer_max_size = 20000000,
       default_timeout = 30, msg_counter = 0, queues = (\<lambda>q. []), sent = [] \<rparr>"

text \<open>
  \<^verbatim>\<open>str(method) + repr(params)\<close>; \<^verbatim>\<open>repr\<close> on parameter lists is the parameter \<open>py_repr\<close>.
\<close>

definition get_hashable_key_for_rpc_call :: "(json list \<Rightarrow> string) \<Rightarrow> string \<Rightarrow> json list \<Rightarrow> string" where
  "get_hashable_key_for_rpc_call py_repr method params = method @ py_repr params"

definition queue_put :: "nat \<Rightarrow> json list \<Rightarrow> session \<Rightarrow> session" where
  "queue_put q item s = s\<lparr>queues := (queues s)(q := queues s q @ [item])\<rparr>"

text \<open>
  \<^verbatim>\<open>send_request\<close>: the request is counted and logged, and the peer answers. The peer is
  a function of the whole history of requests, so it may answer the same request
  differently over time; a timeout or an RPC error is an \<open>Inl\<close> answer.
\<close>

definition send_request ::
  "((string \<times> json list) list \<Rightarrow> error + json) \<Rightarrow> session \<Rightarrow> string \<Rightarrow> json list \<Rightarrow> (error + json) \<times> session" where
  "send_request server s method args =
     (let s1 = s\<lparr>msg_counter := msg_counter s + 1, sent := sent s @ [(method, args)]\<rparr>
      in (server (sent s1), s1))"

text \<open>
  \<^verbatim>\<open>handle_request\<close>, for positional arguments: \<^verbatim>\<open>request.args[-1]\<close> raises
  \<^verbatim>\<open>IndexError\<close> on an empty list. A request that is not a notification is ignored.
\<close>

datatype request = Notification string "json list" | Request string "json list"

fun handle_request :: "(json list \<Rightarrow> string) \<Rightarrow> session \<Rightarrow> request \<Rightarrow> (error + unit) \<times> session" where
  "handle_request py_repr s (Request method args) = (Inr (), s)"
| "handle_request py_repr s (Notification method args) =
     (if args = [] then (Inl (IndexError ''list index out of range''), s)
      else
        let params = butlast args; result = last args;
            key = get_hashable_key_for_rpc_call py_repr method params
        in case subscriptions s key of
             Some qs \<Rightarrow> (Inr (), fold (\<lambda>q. queue_put q args) qs (s\<lparr>cache := (cache s)(key \<mapsto> result)\<rparr>))
           | None \<Rightarrow> (Inl (Exception ''unexpected request''), s))"

definition subscribe ::
  "(json list \<Rightarrow> string) \<Rightarrow> ((string \<times> json list) list \<Rightarrow> error + json) \<Rightarrow> session
     \<Rightarrow> string \<Rightarrow> json list \<Rightarrow> nat \<Rightarrow> (error + unit) \<times> session" where
  "subscribe py_repr server s method params queue =
     (let key = get_hashable_key_for_rpc_call py_repr method params;
          s1 = s\<lparr>subscriptions := (subscriptions s)
                 (key \<mapsto> (case subscriptions s key of None \<Rightarrow> [] | Some qs \<Rightarrow> qs) @ [queue])\<rparr>
      in case cache s1 key of
           Some result \<Rightarrow> (Inr (), queue_put queue (params @ [result]) s1)
         | None \<Rightarrow>
             (case send_request server s1 method params of
                (Inl e, s2) \<Rightarrow> (Inl e, s2)
              | (Inr result, s2) \<Rightarrow>
                  (Inr (), queue_put queue (params @ [result]) (s2\<lparr>cache := (cache s2)(key \<mapsto> result)\<rparr>))))"

text \<open>\<^verbatim>\<open>v.remove(queue)\<close> removes the first occurrence; the key stays in the table.\<close>

definition unsubscribe :: "session \<Rightarrow> nat \<Rightarrow> session" where
  "unsubscribe s queue = s\<lparr>subscriptions := (\<lambda>k. map_option (remove1 queue) (subscriptions s k))\<rparr>"

subsection \<open>Properties of the notification session\<close>

lemma queues_fold_put:
  "queues (fold (\<lambda>q. queue_put q item) qs s) q = queues s q @ replicate (count_list qs q) item"
  by (induction qs arbitrary: s) (auto simp: queue_put_def replicate_app_Cons_same)

lemma fold_put_other:
  "cache (fold (\<lambda>q. queue_put q item) qs s) = cache s"
  "subscriptions (fold (\<lambda>q. queue_put q item) qs s) = subscriptions s"
  "sent (fold (\<lambda>q. queue_put q item) qs s) = sent s"
  by (induction qs arbitrary: s) (auto simp: queue_put_def)


text \<open>
  The life of a session: calls of \<^verbatim>\<open>subscribe\<close> and \<^verbatim>\<open>unsubscribe\<close> and incoming
  requests, in some order, starting from a fresh session. An operation that raises
  leaves the state it had reached, and the session goes on.
\<close>

datatype event = Subscribe string "json list" nat | Unsubscribe nat | Incoming request

fun apply_event ::
  "(json list \<Rightarrow> string) \<Rightarrow> ((string \<times> json list) list \<Rightarrow> error + json) \<Rightarrow> event \<Rightarrow> session \<Rightarrow> session" where
  "apply_event py_repr server (Subscribe method params queue) s = snd (subscribe py_repr server s method params queue)"
| "apply_event py_repr server (Unsubscribe queue) s = unsubscribe s queue"
| "apply_event py_repr server (Incoming r) s = snd (handle_request py_repr s r)"

definition run_session ::
  "(json list \<Rightarrow> string) \<Rightarrow> ((string \<times> json list) list \<Rightarrow> error + json) \<Rightarrow> event list \<Rightarrow> session" where
  "run_session py_repr server evs = fold (apply_event py_repr server) evs NotificationSession_init"


lemma subscribe_subscriptions:
  "subscriptions (snd (subscribe py_repr server s method params queue)) =
     (subscriptions s)(get_hashable_key_for_rpc_call py_repr method params \<mapsto>
        (case subscriptions s (get_hashable_key_for_rpc_call py_repr method params) of
           None \<Rightarrow> [] | Some qs \<Rightarrow> qs) @ [queue])"
  by (simp add: subscribe_def Let_def send_request_def queue_put_def split: option.splits sum.splits)







lemma handle_notification_known:
  assumes "args \<noteq> []" "subscriptions s (get_hashable_key_for_rpc_call py_repr method (butlast args)) = Some qs"
  shows "fst (handle_request py_repr s (Notification method args)) = Inr ()"
    and "cache (snd (handle_request py_repr s (Notification method args))) =
           (cache s)(get_hashable_key_for_rpc_call py_repr method (butlast args) \<mapsto> last args)"
    and "queues (snd (handle_request py_repr s (Notification method args))) q =
           queues s q @ replicate (count_list qs q) args"
  using assms by (simp_all add: Let_def fold_put_other queues_fold_put)









lemma subscribe_cached:
  assumes "cache s (get_hashable_key_for_rpc_call py_repr method params) = Some v"
  shows "subscribe py_repr server s method params queue =
           (Inr (), queue_put queue (params @ [v])
              (s\<lparr>subscriptions := (subscriptions s)
                 (get_hashable_key_for_rpc_call py_repr method params \<mapsto>
                    (case subscriptions s (get_hashable_key_for_rpc_call py_repr method params) of
                       None \<Rightarrow> [] | Some qs \<Rightarrow> qs) @ [queue])\<rparr>))"
  using assms by (simp add: subscribe_def Let_def)

lemma subscribe_uncached_sent:
  assumes "cache s (get_hashable_key_for_rpc_call py_repr method params) = None"
  shows "sent (snd (subscribe py_repr server s method params queue)) = sent s @ [(method, params)]"
  using assms by (auto simp: subscribe_def Let_def send_request_def queue_put_def split: sum.splits)

lemma subscribe_uncached_ok:
  assumes "cache s (get_hashable_key_for_rpc_call py_repr method params) = None"
    and "server (sent s @ [(method, params)]) = Inr r"
  shows "fst (subscribe py_repr server s method params queue) = Inr ()"
    and "cache (snd (subscribe py_repr server s method params queue))
             = (cache s)(get_hashable_key_for_rpc_call py_repr method params \<mapsto> r)"
    and "queues (snd (subscribe py_repr server s method params queue)) queue
             = queues s queue @ [params @ [r]]"
  using assms by (auto simp: subscribe_def Let_def send_request_def queue_put_def split: sum.splits)

lemma subscribe_uncached_error:
  assumes "cache s (get_hashable_key_for_rpc_call py_repr method params) = None"
    and "server (sent s @ [(method, params)]) = Inl e"
  shows "fst (subscribe py_repr server s method params queue) = Inl e"
    and "cache (snd (subscribe py_repr server s method params queue)) = cache s"
    and "queues (snd (subscribe py_repr server s method params queue)) = queues s"
  using assms by (auto simp: subscribe_def Let_def send_request_def queue_put_def split: sum.splits)

text \<open>
  Claim C7. For every call \<^verbatim>\<open>subscribe(method, params, queue)\<close> with key \<open>K\<close>: when
  \<open>K\<close> is cached, the call returns, no request is sent, and the cached value is put on
  the queue (as \<^verbatim>\<open>params + [value]\<close>); otherwise exactly one request
  \<^verbatim>\<open>(method, params)\<close> is sent and, when it is answered, the answer is stored in the
  cache under \<open>K\<close> and put on the queue. In both cases the queue is listed under \<open>K\<close>
  afterwards, and a notification for \<open>K\<close> arriving in any state where the queue is
  listed under \<open>K\<close> is appended to it (once per listing).
\<close>

theorem subscribe_delivers_cached_or_requested:
  "(cache s (get_hashable_key_for_rpc_call py_repr method params) = Some v \<longrightarrow>
      fst (subscribe py_repr server s method params queue) = Inr ()
    \<and> sent (snd (subscribe py_repr server s method params queue)) = sent s
    \<and> cache (snd (subscribe py_repr server s method params queue)) = cache s
    \<and> queues (snd (subscribe py_repr server s method params queue)) queue
        = queues s queue @ [params @ [v]])
   \<and> (cache s (get_hashable_key_for_rpc_call py_repr method params) = None \<longrightarrow>
      sent (snd (subscribe py_repr server s method params queue)) = sent s @ [(method, params)]
    \<and> (\<forall>r. server (sent s @ [(method, params)]) = Inr r \<longrightarrow>
          fst (subscribe py_repr server s method params queue) = Inr ()
        \<and> cache (snd (subscribe py_repr server s method params queue))
            = (cache s)(get_hashable_key_for_rpc_call py_repr method params \<mapsto> r)
        \<and> queues (snd (subscribe py_repr server s method params queue)) queue
            = queues s queue @ [params @ [r]]))
   \<and> (\<exists>qs. subscriptions (snd (subscribe py_repr server s method params queue))
              (get_hashable_key_for_rpc_call py_repr method params) = Some qs
         \<and> queue \<in> set qs)
   \<and> (\<forall>t qs. subscriptions t (get_hashable_key_for_rpc_call py_repr method params) = Some qs
         \<and> queue \<in> set qs \<longrightarrow>
         0 < count_list qs queue
       \<and> fst (handle_request py_repr t (Notification method (params @ [x]))) = Inr ()
       \<and> queues (snd (handle_request py_repr t (Notification method (params @ [x])))) queue
           = queues t queue @ replicate (count_list qs queue) (params @ [x]))"
proof (intro conjI impI allI)
  let ?K = "get_hashable_key_for_rpc_call py_repr method params"
  let ?r = "subscribe py_repr server s method params queue"
  {
    assume c: "cache s ?K = Some v"
    show "fst ?r = Inr ()" "sent (snd ?r) = sent s" "cache (snd ?r) = cache s"
      "queues (snd ?r) queue = queues s queue @ [params @ [v]]"
      by (simp_all add: subscribe_cached[OF c] queue_put_def)
  }
  {
    assume c: "cache s ?K = None"
    show "sent (snd ?r) = sent s @ [(method, params)]" by (rule subscribe_uncached_sent[OF c])
    fix r assume r: "server (sent s @ [(method, params)]) = Inr r"
    show "fst ?r = Inr ()" "cache (snd ?r) = (cache s)(?K \<mapsto> r)"
       "queues (snd ?r) queue = queues s queue @ [params @ [r]]"
      by (rule subscribe_uncached_ok[where server = server, OF c r])+
  }
  show "\<exists>qs. subscriptions (snd ?r) ?K = Some qs \<and> queue \<in> set qs"
    by (simp add: subscribe_subscriptions)
  fix t :: session and qs assume t: "subscriptions t ?K = Some qs \<and> queue \<in> set qs"
  show "0 < count_list qs queue" using t count_list_0_iff[of qs queue] by auto
  have n: "params @ [x] \<noteq> []" by simp
  have k: "subscriptions t (get_hashable_key_for_rpc_call py_repr method (butlast (params @ [x]))) = Some qs"
    using t by simp
  show "fst (handle_request py_repr t (Notification method (params @ [x]))) = Inr ()"
    by (rule handle_notification_known(1)[OF n k])
  show "queues (snd (handle_request py_repr t (Notification method (params @ [x])))) queue
           = queues t queue @ replicate (count_list qs queue) (params @ [x])"
    by (rule handle_notification_known(3)[OF n k])
qed


text \<open>A concrete \<open>py_repr\<close> and a concrete peer, for evaluating the session on examples.\<close>

definition demo_repr :: "json list \<Rightarrow> string" where
  "demo_repr ps = (if ps = [] then ''[]'' else ''[...]'')"

definition demo_server :: "(string \<times> json list) list \<Rightarrow> error + json" where
  "demo_server history = Inr (JInt (int (length history)))"

lemmas session_eval = subscribe_def send_request_def queue_put_def unsubscribe_def Let_def
  NotificationSession_init_def run_session_def get_hashable_key_for_rpc_call_def demo_repr_def demo_server_def

theorem subscribe_delivers_cached_or_requested_witness:
  "cache NotificationSession_init (get_hashable_key_for_rpc_call demo_repr ''blockchain.headers.subscribe'' []) = None
   \<and> demo_server (sent NotificationSession_init @ [(''blockchain.headers.subscribe'', [])]) = Inr (JInt 1)
   \<and> subscribe demo_repr demo_server NotificationSession_init ''blockchain.headers.subscribe'' [] 5
       = (Inr (), NotificationSession_init
            \<lparr> subscriptions := [''blockchain.headers.subscribe[]'' \<mapsto> [5]],
              cache := [''blockchain.headers.subscribe[]'' \<mapsto> JInt 1],
              msg_counter := 1,
              queues := (\<lambda>q. [])(5 := [[JInt 1]]),
              sent := [(''blockchain.headers.subscribe'', [])] \<rparr>)
   \<and> sent (snd (subscribe demo_repr demo_server NotificationSession_init ''blockchain.headers.subscribe'' [] 5))
       = [(''blockchain.headers.subscribe'', [])]
   \<and> cache (snd (subscribe demo_repr demo_server NotificationSession_init ''blockchain.headers.subscribe'' [] 5))
         (get_hashable_key_for_rpc_call demo_repr ''blockchain.headers.subscribe'' []) = Some (JInt 1)
   \<and> sent (snd (subscribe demo_repr demo_server
         (snd (subscribe demo_repr demo_server NotificationSession_init ''blockchain.headers.subscribe'' [] 5))
         ''blockchain.headers.subscribe'' [] 6))
       = [(''blockchain.headers.subscribe'', [])]
   \<and> queues (snd (subscribe demo_repr demo_server
         (snd (subscribe demo_repr demo_server NotificationSession_init ''blockchain.headers.subscribe'' [] 5))
         ''blockchain.headers.subscribe'' [] 6)) 6
       = [[JInt 1]]"
proof -
  let ?s0 = "NotificationSession_init"
  let ?m = "''blockchain.headers.subscribe''"
  let ?s1 = "snd (subscribe demo_repr demo_server ?s0 ?m [] 5)"
  have c0: "cache ?s0 (get_hashable_key_for_rpc_call demo_repr ?m []) = None"
    by (simp add: session_eval)
  have r0: "demo_server (sent ?s0 @ [(?m, [])]) = Inr (JInt 1)"
    by (simp add: session_eval)
  have e: "subscribe demo_repr demo_server ?s0 ?m [] 5
       = (Inr (), ?s0
            \<lparr> subscriptions := [''blockchain.headers.subscribe[]'' \<mapsto> [5]],
              cache := [''blockchain.headers.subscribe[]'' \<mapsto> JInt 1],
              msg_counter := 1,
              queues := (\<lambda>q. [])(5 := [[JInt 1]]),
              sent := [(?m, [])] \<rparr>)"
    by (simp add: session_eval)
  have c1: "cache ?s1 (get_hashable_key_for_rpc_call demo_repr ?m []) = Some (JInt 1)"
    by (simp add: session_eval)
  have q1: "queues ?s1 6 = []" "sent ?s1 = [(?m, [])]"
    by (simp_all add: e)
  show ?thesis
    using subscribe_delivers_cached_or_requested [of ?s0 demo_repr ?m "[]" "JInt 1" demo_server 5]
      subscribe_delivers_cached_or_requested [of ?s1 demo_repr ?m "[]" "JInt 1" demo_server 6] c0 r0 c1 e q1
    by (simp del: fun_upd_apply)
qed





subsection \<open>Dynamic typing of server answers\<close>

text \<open>
  What the peer sends is any JSON value, so every access the code makes is typed
  dynamically: \<^verbatim>\<open>key in v\<close> is a key test on a dict, a substring test on a string and
  a membership test on a list; \<^verbatim>\<open>v[key]\<close>, \<^verbatim>\<open>len(v)\<close>, slicing, iteration and
  arithmetic raise \<^verbatim>\<open>TypeError\<close> or \<^verbatim>\<open>KeyError\<close> on the wrong kind of value. A dict
  is the list of its items, with distinct keys. Byte strings are lists of characters.
\<close>

type_synonym bytes = string

definition err_bind :: "error + 'a \<Rightarrow> ('a \<Rightarrow> error + 'b) \<Rightarrow> error + 'b" where
  "err_bind r f = (case r of Inl e \<Rightarrow> Inl e | Inr x \<Rightarrow> f x)"

fun is_substr :: "string \<Rightarrow> string \<Rightarrow> bool" where
  "is_substr k [] = (k = [])"
| "is_substr k (c # cs) = (take (length k) (c # cs) = k \<or> is_substr k cs)"

definition py_in :: "string \<Rightarrow> json \<Rightarrow> error + bool" where
  "py_in key v =
     (case v of
        JDict kvs \<Rightarrow> Inr (key \<in> fst ` set kvs)
      | JStr s \<Rightarrow> Inr (is_substr key s)
      | JList xs \<Rightarrow> Inr (JStr key \<in> set xs)
      | _ \<Rightarrow> Inl (TypeError ''argument is not iterable''))"

definition py_getitem :: "json \<Rightarrow> string \<Rightarrow> error + json" where
  "py_getitem v key =
     (case v of
        JDict kvs \<Rightarrow> (case map_of kvs key of None \<Rightarrow> Inl (KeyError key) | Some x \<Rightarrow> Inr x)
      | JStr s \<Rightarrow> Inl (TypeError ''string indices must be integers'')
      | JList xs \<Rightarrow> Inl (TypeError ''list indices must be integers or slices'')
      | _ \<Rightarrow> Inl (TypeError ''object is not subscriptable''))"

definition py_len :: "json \<Rightarrow> error + int" where
  "py_len v =
     (case v of
        JStr s \<Rightarrow> Inr (int (length s))
      | JList xs \<Rightarrow> Inr (int (length xs))
      | JDict kvs \<Rightarrow> Inr (int (length kvs))
      | _ \<Rightarrow> Inl (TypeError ''object has no len()''))"

definition slice_list :: "'a list \<Rightarrow> int \<Rightarrow> int \<Rightarrow> 'a list" where
  "slice_list xs a b =
     (let n = int (length xs);
          a' = (if a < 0 then max (n + a) 0 else min a n);
          b' = (if b < 0 then max (n + b) 0 else min b n)
      in if a' < b' then take (nat (b' - a')) (drop (nat a') xs) else [])"

definition py_slice :: "json \<Rightarrow> int \<Rightarrow> int \<Rightarrow> error + json" where
  "py_slice v a b =
     (case v of
        JStr s \<Rightarrow> Inr (JStr (slice_list s a b))
      | JList xs \<Rightarrow> Inr (JList (slice_list xs a b))
      | JDict kvs \<Rightarrow> Inl (TypeError ''unhashable type: slice'')
      | _ \<Rightarrow> Inl (TypeError ''object is not subscriptable''))"

definition py_iter :: "json \<Rightarrow> error + json list" where
  "py_iter v =
     (case v of
        JList xs \<Rightarrow> Inr xs
      | JStr s \<Rightarrow> Inr (map (\<lambda>c. JStr [c]) s)
      | JDict kvs \<Rightarrow> Inr (map (\<lambda>kv. JStr (fst kv)) kvs)
      | _ \<Rightarrow> Inl (TypeError ''object is not iterable''))"

definition py_num :: "json \<Rightarrow> error + int" where
  "py_num v =
     (case v of
        JInt n \<Rightarrow> Inr n
      | JBool b \<Rightarrow> Inr (if b then 1 else 0)
      | _ \<Rightarrow> Inl (TypeError ''unsupported operand type(s) for +''))"

subsection \<open>Collaborators\<close>

text \<open>
  The modules \<^verbatim>\<open>blockchain\<close>, \<^verbatim>\<open>constants\<close>, \<^verbatim>\<open>crypto\<close> and \<^verbatim>\<open>util\<close> and the remote
  server are parameters, collected in \<open>env\<close>. Headers \<open>'h\<close> and chains \<open>'c\<close> are opaque;
  \<open>'b\<close> is the state of the blockchain store, which \<^verbatim>\<open>save_header\<close>, \<^verbatim>\<open>connect_chunk\<close>
  and \<^verbatim>\<open>fork\<close> change. \<open>bfh\<close> is \<^verbatim>\<open>bytes.fromhex\<close> (it raises on a value that is not a
  hexadecimal string); \<^verbatim>\<open>deserialize_header\<close> is handed the height as it comes, a number
  of the program or a value of the peer. The functions \<^verbatim>\<open>blockchain.check_header\<close> and
  \<^verbatim>\<open>blockchain.can_connect\<close> return a chain or nothing; the test hook of a header
  (\<^verbatim>\<open>header['mock']\<close>, when present) supplies functions whose results the code only tests
  for truth and for being a \<^verbatim>\<open>Blockchain\<close>, which is what \<open>truthy\<close> records.
\<close>

datatype 'c truthy = Falsy | Truthy | IsChain 'c

fun truth :: "'c truthy \<Rightarrow> bool" where
  "truth Falsy = False"
| "truth Truthy = True"
| "truth (IsChain c) = True"

fun of_chain :: "'c option \<Rightarrow> 'c truthy" where
  "of_chain None = Falsy"
| "of_chain (Some c) = IsChain c"

record ('h, 'c) mock =
  mock_check :: "'h \<Rightarrow> 'c truthy"
  mock_connect :: "int \<Rightarrow> 'c truthy"
  mock_fork :: "'h \<Rightarrow> error + 'c"

record ('h, 'c, 'b) env =
  max_checkpoint :: int
  VERIFICATION_BLOCK_MERKLE_ROOT :: string
  bfh :: "json \<Rightarrow> error + bytes"
  sha256d :: "bytes \<Rightarrow> bytes"
  root_from_proof :: "bytes \<Rightarrow> bytes list \<Rightarrow> int \<Rightarrow> error + bytes"
  deserialize_header :: "bytes \<Rightarrow> json \<Rightarrow> error + 'h"
  verify_proven_chunk :: "int \<Rightarrow> bytes \<Rightarrow> error + unit"
  server :: "(string \<times> json list) list \<Rightarrow> error + json"
  mock_of :: "'h \<Rightarrow> ('h, 'c) mock option"
  block_height :: "'h \<Rightarrow> int"
  check_header :: "'b \<Rightarrow> 'h \<Rightarrow> 'c option"
  can_connect :: "'b \<Rightarrow> 'h \<Rightarrow> bool \<Rightarrow> 'c option"
  chain_can_connect :: "'b \<Rightarrow> 'c \<Rightarrow> 'h \<Rightarrow> bool"
  chain_check_header :: "'b \<Rightarrow> 'c \<Rightarrow> 'h option \<Rightarrow> bool"
  get_best_chain :: "'b \<Rightarrow> 'c option"
  chains :: "'b \<Rightarrow> 'c list"
  chain_height :: "'b \<Rightarrow> 'c \<Rightarrow> int"
  chain_forkpoint :: "'b \<Rightarrow> 'c \<Rightarrow> int"
  connect_chunk :: "'b \<Rightarrow> 'c \<Rightarrow> int \<Rightarrow> json \<Rightarrow> bool \<Rightarrow> (error + bool) \<times> 'b"
  save_header :: "'b \<Rightarrow> 'c \<Rightarrow> 'h \<Rightarrow> (error + unit) \<times> 'b"
  chain_fork :: "'b \<Rightarrow> 'c \<Rightarrow> 'h \<Rightarrow> (error + 'c) \<times> 'b"

text \<open>
  The state of an \<^verbatim>\<open>Interface\<close>: the chain it is bound to, the chunks being requested,
  the tip view, the \<^verbatim>\<open>ready\<close> future, its session and the blockchain store it shares.
  Callbacks to the \<^verbatim>\<open>Network\<close> and logging are left out.
\<close>

datatype future = Pending | Done | Cancelled

record ('h, 'c, 'b) interface =
  blockchain :: "'c option"
  requested_chunks :: "int set"
  tip_header :: "'h option"
  tip :: int
  ready :: future
  session :: session
  store :: 'b

text \<open>\<^verbatim>\<open>Interface.__init__\<close>, with the session that \<^verbatim>\<open>open_session\<close> creates.\<close>

definition Interface_init :: "'b \<Rightarrow> ('h, 'c, 'b) interface" where
  "Interface_init b =
     \<lparr> blockchain = None, requested_chunks = {}, tip_header = None, tip = 0, ready = Pending,
       session = NotificationSession_init, store = b \<rparr>"

subsection \<open>Checkpoint validator\<close>

fun byte_branches :: "('h, 'c, 'b) env \<Rightarrow> json list \<Rightarrow> error + bytes list" where
  "byte_branches env [] = Inr []"
| "byte_branches env (v # vs) =
     (case bfh env v of
        Inl e \<Rightarrow> Inl e
      | Inr b \<Rightarrow> (case byte_branches env vs of Inl e \<Rightarrow> Inl e | Inr bs \<Rightarrow> Inr (rev b # bs)))"

definition validate_checkpoint_result ::
  "('h, 'c, 'b) env \<Rightarrow> json \<Rightarrow> json \<Rightarrow> json \<Rightarrow> int \<Rightarrow> error + unit" where
  "validate_checkpoint_result env merkle_root merkle_branch header header_height =
     (case bfh env merkle_root of Inl e \<Rightarrow> Inl e | Inr rb \<Rightarrow>
      let received_merkle_root = rev rb in
      case bfh env (JStr (VERIFICATION_BLOCK_MERKLE_ROOT env)) of Inl e \<Rightarrow> Inl e | Inr eb \<Rightarrow>
      let expected_merkle_root = rev eb in
      if received_merkle_root \<noteq> expected_merkle_root
      then Inl (Exception ''Sent unexpected merkle root'')
      else
        case bfh env header of Inl e \<Rightarrow> Inl e | Inr hb \<Rightarrow>
        let header_hash = sha256d env hb in
        case py_iter merkle_branch of Inl e \<Rightarrow> Inl e | Inr vs \<Rightarrow>
        case byte_branches env vs of Inl e \<Rightarrow> Inl e | Inr branches \<Rightarrow>
        case root_from_proof env header_hash branches header_height of Inl e \<Rightarrow> Inl e | Inr proven_merkle_root \<Rightarrow>
        if proven_merkle_root \<noteq> expected_merkle_root
        then Inl (Exception ''Sent incorrect merkle branch'')
        else Inr ())"

text \<open>\<^verbatim>\<open>self.session.send_request\<close>, on the session of the interface.\<close>

definition session_request ::
  "('h, 'c, 'b) env \<Rightarrow> ('h, 'c, 'b) interface \<Rightarrow> string \<Rightarrow> json list \<Rightarrow> (error + json) \<times> ('h, 'c, 'b) interface" where
  "session_request env st method args =
     (case send_request (server env) (session st) method args of
        (r, ss) \<Rightarrow> (r, st\<lparr>session := ss\<rparr>))"

text \<open>\<^verbatim>\<open>k1 in res and k2 in res and ...\<close>, evaluated left to right.\<close>

definition has_envelope :: "json \<Rightarrow> string list \<Rightarrow> error + bool" where
  "has_envelope res keys =
     foldl (\<lambda>acc key. err_bind acc (\<lambda>b. if b then py_in key res else Inr False)) (Inr True) keys"

definition get_block_header ::
  "('h, 'c, 'b) env \<Rightarrow> ('h, 'c, 'b) interface \<Rightarrow> int \<Rightarrow> bool \<Rightarrow> (error + 'h \<times> bool) \<times> ('h, 'c, 'b) interface" where
  "get_block_header env st height must_provide_proof =
     (if height > max_checkpoint env \<and> must_provide_proof
      then (Inl (Exception ''Cannot request a checkpoint proof because requested height is above checkpoint height''), st)
      else
        let cp_height = (if height > max_checkpoint env then 0 else max_checkpoint env) in
        case session_request env st ''blockchain.block.header'' [JInt height, JInt cp_height] of
          (Inl e, st1) \<Rightarrow> (Inl e, st1)
        | (Inr res, st1) \<Rightarrow>
            (case has_envelope res [''root'', ''branch'', ''header''] of
               Inl e \<Rightarrow> (Inl e, st1)
             | Inr True \<Rightarrow>
                 if cp_height = 0
                 then (Inl (Exception ''Received checkpoint validation data even though it was not requested.''), st1)
                 else
                   (err_bind (py_getitem res ''header'') (\<lambda>hexheader.
                    err_bind (py_getitem res ''root'') (\<lambda>root.
                    err_bind (py_getitem res ''branch'') (\<lambda>branch.
                    err_bind (validate_checkpoint_result env root branch hexheader height) (\<lambda>u.
                    err_bind (bfh env hexheader) (\<lambda>raw.
                    err_bind (deserialize_header env raw (JInt height)) (\<lambda>h. Inr (h, True))))))), st1)
             | Inr False \<Rightarrow>
                 if cp_height \<noteq> 0
                 then (Inl (Exception ''Expected checkpoint validation data, did not receive it.''), st1)
                 else
                   (err_bind (bfh env res) (\<lambda>raw.
                    err_bind (deserialize_header env raw (JInt height)) (\<lambda>h. Inr (h, False))), st1)))"


definition request_headers ::
  "('h, 'c, 'b) env \<Rightarrow> ('h, 'c, 'b) interface \<Rightarrow> int \<Rightarrow> int \<Rightarrow> (error + json \<times> bool) \<times> ('h, 'c, 'b) interface" where
  "request_headers env st height count =
     (if count > 2016
      then (Inl (Exception ''Server does not support requesting more than 2016 consecutive headers''), st)
      else
        let top_height = height + count - 1;
            cp_height = (if top_height > max_checkpoint env then 0 else max_checkpoint env)
        in
        case session_request env st ''blockchain.block.headers'' [JInt height, JInt count, JInt cp_height] of
          (Inl e, st1) \<Rightarrow> (Inl e, st1)
        | (Inr res, st1) \<Rightarrow>
           (err_bind (py_getitem res ''hex'') (\<lambda>hexdata.
            err_bind (py_len hexdata) (\<lambda>n.
            let header_hexsize = 80 * 2; actual_header_count = n div header_hexsize in
            if actual_header_count > count then Inl (Exception ''chunk data size incorrect'')
            else
              err_bind (has_envelope res [''root'', ''branch'']) (\<lambda>enveloped.
              if enveloped then
                if cp_height = 0
                then Inl (Exception ''Received checkpoint validation data even though it was not requested.'')
                else
                  let header_height = height + actual_header_count - 1;
                      header_offset = (actual_header_count - 1) * header_hexsize
                  in
                  err_bind (py_slice hexdata header_offset (header_offset + header_hexsize)) (\<lambda>header.
                  err_bind (py_getitem res ''root'') (\<lambda>root.
                  err_bind (py_getitem res ''branch'') (\<lambda>branch.
                  err_bind (validate_checkpoint_result env root branch header header_height) (\<lambda>u.
                  err_bind (bfh env hexdata) (\<lambda>data.
                  err_bind (verify_proven_chunk env height data) (\<lambda>u. Inr (res, True)))))))
              else if cp_height \<noteq> 0
              then Inl (Exception ''Expected checkpoint validation data, did not receive it.'')
              else Inr (res, False)))), st1))"

text \<open>A method call on \<^verbatim>\<open>self.blockchain\<close> raises while no chain is bound.\<close>

definition bound_chain :: "('h, 'c, 'b) interface \<Rightarrow> error + 'c" where
  "bound_chain st =
     (case blockchain st of
        None \<Rightarrow> Inl (AttributeError ''NoneType object has no attribute'')
      | Some c \<Rightarrow> Inr c)"

text \<open>
  The size of the chunk to ask for: \<^verbatim>\<open>size = 2016\<close>, clamped to
  \<^verbatim>\<open>tip - index * 2016 + 1\<close> and to 0 from below when a tip is given.
\<close>

definition chunk_size :: "int \<Rightarrow> int option \<Rightarrow> int" where
  "chunk_size index tip' = (case tip' of None \<Rightarrow> 2016 | Some t \<Rightarrow> max (min 2016 (t - index * 2016 + 1)) 0)"

definition request_chunk ::
  "('h, 'c, 'b) env \<Rightarrow> ('h, 'c, 'b) interface \<Rightarrow> int \<Rightarrow> int option \<Rightarrow> bool
     \<Rightarrow> (error + (bool \<times> json) option) \<times> ('h, 'c, 'b) interface" where
  "request_chunk env st height tip' can_return_early =
     (let index = height div 2016 in
      if can_return_early \<and> index \<in> requested_chunks st then (Inr None, st)
      else
        let size = chunk_size index tip';
            st1 = st\<lparr>requested_chunks := insert index (requested_chunks st)\<rparr>
        in
        case request_headers env st1 (index * 2016) size of
          (r, st2) \<Rightarrow>
            let st3 = st2\<lparr>requested_chunks := requested_chunks st2 - {index}\<rparr> in
            (case r of
               Inl e \<Rightarrow> (Inl e, st3)
             | Inr (res, proof_was_provided) \<Rightarrow>
                 (case bound_chain st3 of
                    Inl e \<Rightarrow> (Inl e, st3)
                  | Inr c \<Rightarrow>
                      (case py_getitem res ''hex'' of
                         Inl e \<Rightarrow> (Inl e, st3)
                       | Inr hexdata \<Rightarrow>
                           (case connect_chunk env (store st3) c index hexdata proof_was_provided of
                              (Inl e, b) \<Rightarrow> (Inl e, st3\<lparr>store := b\<rparr>)
                            | (Inr conn, b) \<Rightarrow>
                                if \<not> conn then (Inr (Some (conn, JInt 0)), st3\<lparr>store := b\<rparr>)
                                else (case py_getitem res ''count'' of
                                        Inl e \<Rightarrow> (Inl e, st3\<lparr>store := b\<rparr>)
                                      | Inr n \<Rightarrow> (Inr (Some (conn, n)), st3\<lparr>store := b\<rparr>)))))))"

subsection \<open>Header checks, with the test hook\<close>

text \<open>
  \<^verbatim>\<open>blockchain.check_header(header) if 'mock' not in header else header['mock']['check'](header)\<close>
  and its analogue for \<^verbatim>\<open>can_connect\<close>; \<open>rebind\<close> is
  \<^verbatim>\<open>self.blockchain = chain if isinstance(chain, Blockchain) else self.blockchain\<close>.
\<close>

definition header_checks :: "('h, 'c, 'b) env \<Rightarrow> ('h, 'c, 'b) interface \<Rightarrow> 'h \<Rightarrow> 'c truthy" where
  "header_checks env st header =
     (case mock_of env header of
        None \<Rightarrow> of_chain (check_header env (store st) header)
      | Some m \<Rightarrow> mock_check m header)"

definition header_connects :: "('h, 'c, 'b) env \<Rightarrow> ('h, 'c, 'b) interface \<Rightarrow> 'h \<Rightarrow> bool \<Rightarrow> int \<Rightarrow> 'c truthy" where
  "header_connects env st header proof_was_provided height =
     (case mock_of env header of
        None \<Rightarrow> of_chain (can_connect env (store st) header proof_was_provided)
      | Some m \<Rightarrow> mock_connect m height)"

definition assert_header_does_not_check_against_any_chain ::
  "('h, 'c, 'b) env \<Rightarrow> ('h, 'c, 'b) interface \<Rightarrow> 'h \<Rightarrow> error + unit" where
  "assert_header_does_not_check_against_any_chain env st header =
     (if truth (header_checks env st header) then Inl (Exception ''bad_header must not check!'') else Inr ())"

definition rebind :: "'c truthy \<Rightarrow> ('h, 'c, 'b) interface \<Rightarrow> ('h, 'c, 'b) interface" where
  "rebind chain st = (case chain of IsChain c \<Rightarrow> st\<lparr>blockchain := Some c\<rparr> | _ \<Rightarrow> st)"


subsection \<open>Backward probe\<close>

text \<open>
  \<^verbatim>\<open>_search_headers_backwards\<close>. \<open>iterate\<close> is the inner function of that name; it returns
  whether to go on, with the values of the variables it shares with the loop. The loop
  runs forever when the probe never comes down, so it returns an option: \<open>None\<close> is a
  run that does not end. \<open>local_max\<close> is \<open>None\<close> for \<^verbatim>\<open>float('inf')\<close>.
\<close>

definition iterate ::
  "('h, 'c, 'b) env \<Rightarrow> ('h, 'c, 'b) interface \<Rightarrow> int
     \<Rightarrow> (error + bool \<times> int \<times> 'h \<times> bool) \<times> ('h, 'c, 'b) interface" where
  "iterate env st height =
     (let checkp = (height \<le> max_checkpoint env);
          height1 = (if checkp then max_checkpoint env else height)
      in case get_block_header env st height1 False of
           (Inl e, st1) \<Rightarrow> (Inl e, st1)
         | (Inr (header, proof_was_provided), st1) \<Rightarrow>
             let chain = header_checks env st1 header;
                 connect = header_connects env st1 header proof_was_provided height1
             in if truth chain \<or> truth connect then (Inr (False, height1, header, proof_was_provided), st1)
                else if checkp then (Inl (GracefulDisconnect ''server chain conflicts with checkpoints''), st1)
                else (Inr (True, height1, header, proof_was_provided), st1))"

partial_function (option) backwards_loop ::
  "('h, 'c, 'b) env \<Rightarrow> ('h, 'c, 'b) interface \<Rightarrow> int \<Rightarrow> int \<Rightarrow> 'h
     \<Rightarrow> ((error + int \<times> 'h \<times> int \<times> 'h \<times> bool) \<times> ('h, 'c, 'b) interface) option" where
  "backwards_loop env st height bad bad_header =
     (case iterate env st height of
        (Inl e, st1) \<Rightarrow> Some (Inl e, st1)
      | (Inr (again, height1, header, proof_was_provided), st1) \<Rightarrow>
          if again
          then backwards_loop env st1 (tip st1 - 2 * (tip st1 - height1)) height1 header
          else (case assert_header_does_not_check_against_any_chain env st1 bad_header of
                  Inl e \<Rightarrow> Some (Inl e, st1)
                | Inr u \<Rightarrow> Some (Inr (height1, header, bad, bad_header, proof_was_provided), st1)))"

definition local_max :: "('h, 'c, 'b) env \<Rightarrow> ('h, 'c, 'b) interface \<Rightarrow> 'h \<Rightarrow> int option" where
  "local_max env st header =
     (case mock_of env header of
        None \<Rightarrow> Some (fold max (map (chain_height env (store st)) (chains env (store st))) 0)
      | Some m \<Rightarrow> None)"

definition search_headers_backwards ::
  "('h, 'c, 'b) env \<Rightarrow> ('h, 'c, 'b) interface \<Rightarrow> int \<Rightarrow> 'h
     \<Rightarrow> ((error + int \<times> 'h \<times> int \<times> 'h \<times> bool) \<times> ('h, 'c, 'b) interface) option" where
  "search_headers_backwards env st height header =
     (case assert_header_does_not_check_against_any_chain env st header of
        Inl e \<Rightarrow> Some (Inl e, st)
      | Inr u \<Rightarrow>
          let height1 = (case local_max env st header of
                           None \<Rightarrow> height - 1
                         | Some m \<Rightarrow> min (m + 1) (height - 1))
          in backwards_loop env st height1 height header)"

subsection \<open>Binary search\<close>

text \<open>
  \<^verbatim>\<open>_search_headers_binary\<close>: the loop, which also returns the last height it fetched
  (the code reads \<^verbatim>\<open>height\<close> after the loop), then the function.
\<close>

function binary_loop ::
  "('h, 'c, 'b) env \<Rightarrow> ('h, 'c, 'b) interface \<Rightarrow> int \<Rightarrow> int \<Rightarrow> 'h
     \<Rightarrow> (error + int \<times> int \<times> 'h \<times> int) \<times> ('h, 'c, 'b) interface" where
  "binary_loop env st good bad bad_header =
     (if \<not> good < bad then (Inl (AssertionError ''good < bad''), st)
      else
        let height = (good + bad) div 2 in
        case get_block_header env st height False of
          (Inl e, st1) \<Rightarrow> (Inl e, st1)
        | (Inr (header, proof_was_provided), st1) \<Rightarrow>
            let chain = header_checks env st1 header in
            if truth chain
            then (if height + 1 = bad then (Inr (height, bad, bad_header, height), rebind chain st1)
                  else binary_loop env (rebind chain st1) height bad bad_header)
            else (if good + 1 = height then (Inr (good, height, header, height), st1)
                  else binary_loop env st1 good height header))"
  by pat_completeness auto
termination
  by (relation "measure (\<lambda>(env, st, good, bad, bad_header). nat (bad - good))") auto

declare binary_loop.simps [simp del]


definition search_headers_binary ::
  "('h, 'c, 'b) env \<Rightarrow> ('h, 'c, 'b) interface \<Rightarrow> int \<Rightarrow> int \<Rightarrow> 'h \<Rightarrow> 'c truthy
     \<Rightarrow> (error + int \<times> int \<times> 'h) \<times> ('h, 'c, 'b) interface" where
  "search_headers_binary env st height bad bad_header chain =
     (if bad \<noteq> block_height env bad_header then (Inl (AssertionError ''bad == bad_header[block_height]''), st)
      else
        case assert_header_does_not_check_against_any_chain env st bad_header of
          Inl e \<Rightarrow> (Inl e, st)
        | Inr u \<Rightarrow>
            (case binary_loop env (rebind chain st) height bad bad_header of
               (Inl e, st1) \<Rightarrow> (Inl e, st1)
             | (Inr (good, bad1, bad_header1, height1), st1) \<Rightarrow>
                 let mock = (case mock_of env bad_header1 of
                               None \<Rightarrow> False
                             | Some m \<Rightarrow> truth (mock_connect m height1))
                 in
                 case (if mock then Inr False
                       else err_bind (bound_chain st1) (\<lambda>c. Inr (chain_can_connect env (store st1) c bad_header1))) of
                   Inl e \<Rightarrow> (Inl e, st1)
                 | Inr real \<Rightarrow>
                     if \<not> real \<and> \<not> mock then (Inl (Exception ''unexpected bad header during binary''), st1)
                     else (case assert_header_does_not_check_against_any_chain env st1 bad_header1 of
                             Inl e \<Rightarrow> (Inl e, st1)
                           | Inr u \<Rightarrow> (Inr (good, bad1, bad_header1), st1))))"

subsection \<open>Fork resolution\<close>

datatype mode = Catchup | No_fork | Fork

text \<open>
  \<^verbatim>\<open>forkfun = self.blockchain.fork if 'mock' not in bad_header else bad_header['mock']['fork']\<close>,
  applied to \<^verbatim>\<open>bad_header\<close>.
\<close>

definition forkfun :: "('h, 'c, 'b) env \<Rightarrow> 'b \<Rightarrow> 'c \<Rightarrow> 'h \<Rightarrow> (error + 'c) \<times> 'b" where
  "forkfun env b c bad_header =
     (case mock_of env bad_header of
        None \<Rightarrow> chain_fork env b c bad_header
      | Some m \<Rightarrow> (mock_fork m bad_header, b))"

definition resolve_potential_chain_fork_given_forkpoint ::
  "('h, 'c, 'b) env \<Rightarrow> ('h, 'c, 'b) interface \<Rightarrow> int \<Rightarrow> int \<Rightarrow> 'h
     \<Rightarrow> (error + mode \<times> int) \<times> ('h, 'c, 'b) interface" where
  "resolve_potential_chain_fork_given_forkpoint env st good bad bad_header =
     (if good + 1 \<noteq> bad then (Inl (AssertionError ''good + 1 == bad''), st)
      else if bad \<noteq> block_height env bad_header then (Inl (AssertionError ''bad == bad_header[block_height]''), st)
      else
        case assert_header_does_not_check_against_any_chain env st bad_header of
          Inl e \<Rightarrow> (Inl e, st)
        | Inr u \<Rightarrow>
            (case bound_chain st of
               Inl e \<Rightarrow> (Inl e, st)
             | Inr c \<Rightarrow>
                 let bh = chain_height env (store st) c in
                 if \<not> bh \<ge> good then (Inl (AssertionError ''bh >= good''), st)
                 else if bh = good then (Inr (No_fork, good + 1), st)
                 else
                   case forkfun env (store st) c bad_header of
                     (Inl e, b) \<Rightarrow> (Inl e, st\<lparr>store := b\<rparr>)
                   | (Inr c', b) \<Rightarrow>
                       let st1 = st\<lparr>store := b, blockchain := Some c'\<rparr> in
                       if chain_forkpoint env b c' \<noteq> bad then (Inl (AssertionError ''b.forkpoint == bad''), st1)
                       else (Inr (Fork, bad + 1), st1)))"

subsection \<open>One synchronisation step\<close>

text \<open>
  \<^verbatim>\<open>step\<close>; \<open>step_connect\<close> is its branch \<^verbatim>\<open>if can_connect:\<close>. A header that is passed in
  comes without a proof.
\<close>

definition step_connect ::
  "('h, 'c, 'b) env \<Rightarrow> ('h, 'c, 'b) interface \<Rightarrow> int \<Rightarrow> 'h \<Rightarrow> 'c truthy
     \<Rightarrow> (error + mode \<times> int) \<times> ('h, 'c, 'b) interface" where
  "step_connect env st height header connect =
     (case connect of
        IsChain c \<Rightarrow>
          (case save_header env (store st) c header of
             (Inl e, b) \<Rightarrow> (Inl e, st\<lparr>blockchain := Some c, store := b\<rparr>)
           | (Inr u, b) \<Rightarrow> (Inr (Catchup, height + 1), st\<lparr>blockchain := Some c, store := b\<rparr>))
      | _ \<Rightarrow> (Inr (Catchup, height + 1), st))"

definition step ::
  "('h, 'c, 'b) env \<Rightarrow> ('h, 'c, 'b) interface \<Rightarrow> int \<Rightarrow> 'h option
     \<Rightarrow> ((error + mode \<times> int) \<times> ('h, 'c, 'b) interface) option" where
  "step env st height header_arg =
     (if \<not> (0 \<le> height \<and> height \<le> tip st) then Some (Inl (AssertionError ''0 <= height <= self.tip''), st)
      else
        case (case header_arg of
                None \<Rightarrow> get_block_header env st height False
              | Some h \<Rightarrow> (Inr (h, False), st)) of
          (Inl e, st1) \<Rightarrow> Some (Inl e, st1)
        | (Inr (header, proof_was_provided), st1) \<Rightarrow>
            let chain = header_checks env st1 header in
            if truth chain then Some (Inr (Catchup, height + 1), rebind chain st1)
            else
              let connect = header_connects env st1 header proof_was_provided height in
              if truth connect then Some (step_connect env st1 height header connect)
              else
                case search_headers_backwards env st1 height header of
                  None \<Rightarrow> None
                | Some (Inl e, st2) \<Rightarrow> Some (Inl e, st2)
                | Some (Inr (height2, header2, bad, bad_header, proof2), st2) \<Rightarrow>
                    let chain2 = header_checks env st2 header2;
                        connect2 = header_connects env st2 header2 proof2 height2
                    in
                    if \<not> (truth chain2 \<or> truth connect2) then Some (Inl (AssertionError ''chain or can_connect''), st2)
                    else if truth connect2 then Some (step_connect env st2 height2 header2 connect2)
                    else
                      case search_headers_binary env st2 height2 bad bad_header chain2 of
                        (Inl e, st3) \<Rightarrow> Some (Inl e, st3)
                      | (Inr (good, bad3, bad_header3), st3) \<Rightarrow>
                          Some (resolve_potential_chain_fork_given_forkpoint env st3 good bad3 bad_header3))"

subsection \<open>Catching up\<close>

text \<open>
  \<^verbatim>\<open>sync_until\<close>. \<open>sync_iteration\<close> is one pass through the body of its loop, from
  the values of \<^verbatim>\<open>last\<close> and \<^verbatim>\<open>height\<close> to their next values. After a chunk that did not
  connect, the pass ends with the result of \<^verbatim>\<open>step\<close> (\<^verbatim>\<open>continue\<close>), without reaching
  the assertion at the end of the body.
\<close>

definition sync_iteration ::
  "('h, 'c, 'b) env \<Rightarrow> ('h, 'c, 'b) interface \<Rightarrow> mode option \<Rightarrow> int \<Rightarrow> int
     \<Rightarrow> ((error + mode \<times> int) \<times> ('h, 'c, 'b) interface) option" where
  "sync_iteration env st last' height next_height =
     (if next_height > height + 10 then
        (case request_chunk env st height (Some next_height) False of
           (Inl e, st1) \<Rightarrow> Some (Inl e, st1)
         | (Inr None, st1) \<Rightarrow> Some (Inl (TypeError ''cannot unpack non-iterable NoneType object''), st1)
         | (Inr (Some (could_connect, num_headers)), st1) \<Rightarrow>
             if \<not> could_connect then
               (if height \<le> max_checkpoint env
                then Some (Inl (GracefulDisconnect ''server chain conflicts with checkpoints or genesis''), st1)
                else step env st1 height None)
             else
               (case py_num num_headers of
                  Inl e \<Rightarrow> Some (Inl e, st1)
                | Inr n \<Rightarrow>
                    let height1 = height div 2016 * 2016 + n in
                    if \<not> height1 \<le> next_height + 1 then Some (Inl (AssertionError ''height <= next_height+1''), st1)
                    else if (last', height) = (Some Catchup, height1)
                    then Some (Inl (AssertionError ''had to prevent infinite loop in interface.sync_until''), st1)
                    else Some (Inr (Catchup, height1), st1)))
      else
        (case step env st height None of
           None \<Rightarrow> None
         | Some (Inl e, st1) \<Rightarrow> Some (Inl e, st1)
         | Some (Inr (last1, height1), st1) \<Rightarrow>
             if (last', height) = (Some last1, height1)
             then Some (Inl (AssertionError ''had to prevent infinite loop in interface.sync_until''), st1)
             else Some (Inr (last1, height1), st1)))"

partial_function (option) sync_loop ::
  "('h, 'c, 'b) env \<Rightarrow> ('h, 'c, 'b) interface \<Rightarrow> mode option \<Rightarrow> int \<Rightarrow> int
     \<Rightarrow> ((error + mode option \<times> int) \<times> ('h, 'c, 'b) interface) option" where
  "sync_loop env st last' height next_height =
     (if last' = None \<or> height \<le> next_height then
        (case sync_iteration env st last' height next_height of
           None \<Rightarrow> None
         | Some (Inl e, st1) \<Rightarrow> Some (Inl e, st1)
         | Some (Inr (last1, height1), st1) \<Rightarrow> sync_loop env st1 (Some last1) height1 next_height)
      else Some (Inr (last', height), st))"

definition sync_until ::
  "('h, 'c, 'b) env \<Rightarrow> ('h, 'c, 'b) interface \<Rightarrow> int \<Rightarrow> int option
     \<Rightarrow> ((error + mode option \<times> int) \<times> ('h, 'c, 'b) interface) option" where
  "sync_until env st height next_height =
     sync_loop env st None height (case next_height of None \<Rightarrow> tip st | Some n \<Rightarrow> n)"


subsection \<open>Following the tip\<close>

text \<open>
  \<^verbatim>\<open>mark_ready\<close>, \<^verbatim>\<open>_process_header_at_tip\<close> and \<^verbatim>\<open>run_fetch_blocks\<close>. The latter is given
  the items its queue yields, in order, and stops at the first exception; with no item
  left it waits. \<open>parse_tip_item\<close> is the part of the loop body up to the header,
  \<open>fetch_blocks_item\<close> the whole body. The height of an item is assigned to \<^verbatim>\<open>self.tip\<close>
  as it comes, and a height that is not a number makes the comparison with the
  checkpoint raise \<^verbatim>\<open>TypeError\<close>, after \<^verbatim>\<open>self.tip_header\<close> was assigned. The field \<open>tip\<close>
  holds numbers only (\<^verbatim>\<open>True\<close> and \<^verbatim>\<open>False\<close> as 1 and 0): in the state returned with that
  \<^verbatim>\<open>TypeError\<close>, the last one of the interface, it keeps the number it had, where
  \<^verbatim>\<open>self.tip\<close> is the value that is not a number.
\<close>

definition mark_ready ::
  "('h, 'c, 'b) env \<Rightarrow> ('h, 'c, 'b) interface \<Rightarrow> (error + unit) \<times> ('h, 'c, 'b) interface" where
  "mark_ready env st =
     (if ready st = Cancelled
      then (Inl (GracefulDisconnect ''conn establishment was too slow; *ready* future was cancelled''), st)
      else if ready st = Done then (Inr (), st)
      else
        case tip_header st of
          None \<Rightarrow> (Inl (AssertionError ''self.tip_header''), st)
        | Some header \<Rightarrow>
            let chain = check_header env (store st) header;
                st1 = st\<lparr>blockchain := (case chain of None \<Rightarrow> get_best_chain env (store st) | Some c \<Rightarrow> Some c)\<rparr>
            in if blockchain st1 = None then (Inl (AssertionError ''self.blockchain is not None''), st1)
               else (Inr (), st1\<lparr>ready := Done\<rparr>))"

definition process_header_at_tip ::
  "('h, 'c, 'b) env \<Rightarrow> ('h, 'c, 'b) interface \<Rightarrow> ((error + unit) \<times> ('h, 'c, 'b) interface) option" where
  "process_header_at_tip env st =
     (let height = tip st; header = tip_header st in
      case bound_chain st of
        Inl e \<Rightarrow> Some (Inl e, st)
      | Inr c \<Rightarrow>
          if chain_height env (store st) c \<ge> height \<and> chain_check_header env (store st) c header
          then Some (Inr (), st)
          else
            case step env st height header of
              None \<Rightarrow> None
            | Some (Inl e, st1) \<Rightarrow> Some (Inl e, st1)
            | Some (Inr (m, height1), st1) \<Rightarrow>
                if height1 \<le> tip st1
                then (case sync_until env st1 height1 None of
                        None \<Rightarrow> None
                      | Some (Inl e, st2) \<Rightarrow> Some (Inl e, st2)
                      | Some (Inr r, st2) \<Rightarrow> Some (Inr (), st2))
                else Some (Inr (), st1))"

definition parse_tip_item :: "('h, 'c, 'b) env \<Rightarrow> json list \<Rightarrow> error + 'h \<times> json" where
  "parse_tip_item env item =
     (case item of
        [] \<Rightarrow> Inl (IndexError ''list index out of range'')
      | raw_header # rest \<Rightarrow>
          err_bind (py_getitem raw_header ''height'') (\<lambda>height.
          err_bind (py_getitem raw_header ''hex'') (\<lambda>hexv.
          err_bind (bfh env hexv) (\<lambda>raw.
          err_bind (deserialize_header env raw height) (\<lambda>header. Inr (header, height))))))"

definition fetch_blocks_item ::
  "('h, 'c, 'b) env \<Rightarrow> ('h, 'c, 'b) interface \<Rightarrow> json list \<Rightarrow> ((error + unit) \<times> ('h, 'c, 'b) interface) option" where
  "fetch_blocks_item env st item =
     (case parse_tip_item env item of
        Inl e \<Rightarrow> Some (Inl e, st)
      | Inr (header, height) \<Rightarrow>
          (case py_num height of
             Inl e \<Rightarrow> Some (Inl (TypeError ''< not supported between instances''), st\<lparr>tip_header := Some header\<rparr>)
           | Inr n \<Rightarrow>
               let st1 = st\<lparr>tip_header := Some header, tip := n\<rparr> in
               if tip st1 < max_checkpoint env
               then Some (Inl (GracefulDisconnect ''server tip below max checkpoint''), st1)
               else
                 case mark_ready env st1 of
                   (Inl e, st2) \<Rightarrow> Some (Inl e, st2)
                 | (Inr u, st2) \<Rightarrow> process_header_at_tip env st2))"

fun run_fetch_blocks ::
  "('h, 'c, 'b) env \<Rightarrow> ('h, 'c, 'b) interface \<Rightarrow> json list list \<Rightarrow> ((error + unit) \<times> ('h, 'c, 'b) interface) option" where
  "run_fetch_blocks env st [] = Some (Inr (), st)"
| "run_fetch_blocks env st (item # items) =
     (case fetch_blocks_item env st item of
        None \<Rightarrow> None
      | Some (Inl e, st1) \<Rightarrow> Some (Inl e, st1)
      | Some (Inr u, st1) \<Rightarrow> run_fetch_blocks env st1 items)"



subsection \<open>A small world for evaluating the interface\<close>

text \<open>
  One chain of headers, all linked: a header is its height and its raw bytes, and the
  store is the height of the local chain. A header with raw bytes \<open>m\<close> is on the chain
  when it is not above the local height; any header one above the local height connects.
  A chunk connects unless it is garbled. A fork gets the height of its first header as
  its name and forkpoint and, holding that header only, makes it the local height.
  Hexadecimal decoding and hashing are stand-ins, and a header deserialised with a
  height that is not an integer gets height 0.
\<close>

definition toy_bfh :: "json \<Rightarrow> error + bytes" where
  "toy_bfh v = (case v of JStr s \<Rightarrow> Inr s | _ \<Rightarrow> Inl (TypeError ''fromhex() argument must be str''))"

definition toy_deserialize_header :: "bytes \<Rightarrow> json \<Rightarrow> error + int \<times> string" where
  "toy_deserialize_header raw height = (case height of JInt n \<Rightarrow> Inr (n, raw) | _ \<Rightarrow> Inr (0, raw))"

definition toy_connect_chunk :: "int \<Rightarrow> int \<Rightarrow> int \<Rightarrow> json \<Rightarrow> bool \<Rightarrow> (error + bool) \<times> int" where
  "toy_connect_chunk b c index hexdata proof_was_provided =
     (case hexdata of
        JStr s \<Rightarrow>
          if s \<noteq> [] \<and> set s \<subseteq> {CHR ''0''} \<and> index * 2016 \<le> b + 1
          then (Inr True, max b (index * 2016 + int (length s) div 160 - 1))
          else (Inr False, b)
      | _ \<Rightarrow> (Inr False, b))"

definition toy_env ::
  "int \<Rightarrow> string \<Rightarrow> ((string \<times> json list) list \<Rightarrow> error + json) \<Rightarrow> (int \<times> string, int, int) env" where
  "toy_env cp root srv =
     \<lparr> max_checkpoint = cp,
       VERIFICATION_BLOCK_MERKLE_ROOT = root,
       bfh = toy_bfh,
       sha256d = rev,
       root_from_proof = (\<lambda>h branches index. Inr (fold (\<lambda>b acc. rev (acc @ b)) branches h)),
       deserialize_header = toy_deserialize_header,
       verify_proven_chunk = (\<lambda>height data. Inr ()),
       server = srv,
       mock_of = (\<lambda>h. None),
       block_height = fst,
       check_header = (\<lambda>b h. if snd h = ''m'' \<and> fst h \<le> b then Some 0 else None),
       can_connect = (\<lambda>b h proof_was_provided. if fst h = b + 1 then Some 0 else None),
       chain_can_connect = (\<lambda>b c h. True),
       chain_check_header = (\<lambda>b c h. case h of None \<Rightarrow> False | Some x \<Rightarrow> snd x = ''m'' \<and> fst x \<le> b),
       get_best_chain = (\<lambda>b. Some 0),
       chains = (\<lambda>b. [0]),
       chain_height = (\<lambda>b c. b),
       chain_forkpoint = (\<lambda>b c. c),
       connect_chunk = toy_connect_chunk,
       save_header = (\<lambda>b c h. (Inr (), fst h)),
       chain_fork = (\<lambda>b c h. (Inr (fst h), fst h)) \<rparr>"

definition toy_interface :: "int \<Rightarrow> int \<Rightarrow> (int \<times> string, int, int) interface" where
  "toy_interface local_height tip_height =
     \<lparr> blockchain = Some 0, requested_chunks = {}, tip_header = Some (tip_height, ''m''), tip = tip_height,
       ready = Done, session = NotificationSession_init, store = local_height \<rparr>"

text \<open>
  The same world with the test hook on every header: the hook's \<^verbatim>\<open>check\<close> and
  \<^verbatim>\<open>connect\<close> are false, and its \<^verbatim>\<open>fork\<close> returns a chain without touching the store.
\<close>

definition toy_mock :: "(int \<times> string, int) mock" where
  "toy_mock = \<lparr> mock_check = (\<lambda>h. Falsy), mock_connect = (\<lambda>height. Falsy), mock_fork = (\<lambda>h. Inr (fst h)) \<rparr>"

definition hooked_env ::
  "int \<Rightarrow> string \<Rightarrow> ((string \<times> json list) list \<Rightarrow> error + json) \<Rightarrow> (int \<times> string, int, int) env" where
  "hooked_env cp root srv = (toy_env cp root srv)\<lparr>mock_of := (\<lambda>h. Some toy_mock)\<rparr>"

text \<open>A peer that answers every request with a bare header, and one that answers with a proof.\<close>

definition plain_server :: "(string \<times> json list) list \<Rightarrow> error + json" where
  "plain_server history = Inr (JStr ''m'')"

definition proving_server :: "(string \<times> json list) list \<Rightarrow> error + json" where
  "proving_server history =
     Inr (JDict [(''root'', JStr ''ab''), (''branch'', JList []), (''header'', JStr ''ab'')])"

text \<open>A peer whose chunks are garbled, and one whose chunks hold one header.\<close>

definition garbled_server :: "(string \<times> json list) list \<Rightarrow> error + json" where
  "garbled_server history = Inr (JDict [(''hex'', JStr ''zz''), (''count'', JInt 1)])"

definition chunk_server :: "(string \<times> json list) list \<Rightarrow> error + json" where
  "chunk_server history = Inr (JDict [(''hex'', JStr (replicate 160 (CHR ''0''))), (''count'', JInt 1)])"

lemmas toy_eval = toy_env_def toy_interface_def toy_bfh_def toy_deserialize_header_def toy_connect_chunk_def
  NotificationSession_init_def plain_server_def proving_server_def garbled_server_def chunk_server_def
  session_request_def send_request_def has_envelope_def py_in_def py_getitem_def err_bind_def
  py_len_def py_slice_def slice_list_def py_iter_def py_num_def
  header_checks_def header_connects_def rebind_def bound_chain_def
  assert_header_does_not_check_against_any_chain_def Let_def

subsection \<open>Properties of the checkpoint validator\<close>






lemma step_tip_at_checkpoint:
  "step (toy_env 100 ''ab'' plain_server) (toy_interface 99 100) 100 (Some (100, ''m''))
     = Some (Inr (Catchup, 101), (toy_interface 99 100)\<lparr>store := 100\<rparr>)"
  by (simp add: step_def step_connect_def toy_eval)


lemma fetch_tip_at_checkpoint:
  "fetch_blocks_item (toy_env 100 ''ab'' plain_server) (Interface_init 99)
       [JDict [(''hex'', JStr ''m''), (''height'', JInt 100)]]
     = Some (Inr (), (Interface_init 99)
         \<lparr>blockchain := Some 0, tip_header := Some (100, ''m''), tip := 100, ready := Done, store := 100\<rparr>)"
  by (simp add: fetch_blocks_item_def parse_tip_item_def mark_ready_def process_header_at_tip_def
      step_def step_connect_def Interface_init_def toy_eval)





subsection \<open>Properties of fork resolution\<close>

lemma resolve_no_fork:
  assumes "good + 1 = bad" "bad = block_height env bad_header"
    "\<not> truth (header_checks env st bad_header)" "blockchain st = Some c"
    "chain_height env (store st) c = good"
  shows "resolve_potential_chain_fork_given_forkpoint env st good bad bad_header
           = (Inr (No_fork, good + 1), st)"
  using assms
  by (simp add: resolve_potential_chain_fork_given_forkpoint_def
      assert_header_does_not_check_against_any_chain_def bound_chain_def)

lemma resolve_behind:
  assumes "good + 1 = bad" "bad = block_height env bad_header"
    "\<not> truth (header_checks env st bad_header)" "blockchain st = Some c"
    "chain_height env (store st) c < good"
  shows "resolve_potential_chain_fork_given_forkpoint env st good bad bad_header
           = (Inl (AssertionError ''bh >= good''), st)"
  using assms
  by (simp add: resolve_potential_chain_fork_given_forkpoint_def
      assert_header_does_not_check_against_any_chain_def bound_chain_def)

lemma resolve_fork:
  assumes "good + 1 = bad" "bad = block_height env bad_header"
    "\<not> truth (header_checks env st bad_header)" "blockchain st = Some c"
    "chain_height env (store st) c > good"
  shows "resolve_potential_chain_fork_given_forkpoint env st good bad bad_header
           = (case forkfun env (store st) c bad_header of
                (Inl e, b) \<Rightarrow> (Inl e, st\<lparr>store := b\<rparr>)
              | (Inr c', b) \<Rightarrow>
                  (if chain_forkpoint env b c' = bad then Inr (Fork, bad + 1)
                   else Inl (AssertionError ''b.forkpoint == bad''),
                   st\<lparr>store := b, blockchain := Some c'\<rparr>))"
  using assms
  by (auto simp: resolve_potential_chain_fork_given_forkpoint_def Let_def
      assert_header_does_not_check_against_any_chain_def bound_chain_def split: prod.splits sum.splits)

text \<open>
  Claim C3. Under the preconditions \<open>good + 1 = bad\<close>, \<open>bad\<close> is the height of
  \<open>bad_header\<close>, and \<open>bad_header\<close> checks against no known chain
  (\<^verbatim>\<open>blockchain.check_header\<close> finds none or, for a header with the test hook, the hook's
  \<^verbatim>\<open>check\<close> is false):
  \<^verbatim>\<open>_resolve_potential_chain_fork_given_forkpoint\<close> returns \<open>('no_fork', good + 1)\<close> and
  changes nothing when the height of the bound chain is \<open>good\<close>. When that height is
  above \<open>good\<close> it calls \<^verbatim>\<open>fork(bad_header)\<close> on the bound chain (for a header with the
  test hook, the hook's \<^verbatim>\<open>fork\<close>, which leaves the store alone): the interface is bound
  to the chain that call returns, the store is the one that call leaves, and, the new
  chain having forkpoint \<open>bad\<close>, the result is \<open>('fork', bad + 1)\<close>. A forkpoint other than
  \<open>bad\<close> fails the assertion after the rebinding, and an exception of the fork
  propagates with the store the fork left. A bound chain below \<open>good\<close> fails the
  assertion \<open>bh >= good\<close>.
\<close>

theorem resolve_fork_given_forkpoint:
  "good + 1 = bad \<and> bad = block_height env bad_header
     \<and> (mock_of env bad_header = None \<longrightarrow> check_header env (store st) bad_header = None)
     \<and> (\<forall>m. mock_of env bad_header = Some m \<longrightarrow> \<not> truth (mock_check m bad_header))
     \<and> blockchain st = Some c \<longrightarrow>
     (chain_height env (store st) c = good \<longrightarrow>
        resolve_potential_chain_fork_given_forkpoint env st good bad bad_header
          = (Inr (No_fork, good + 1), st))
   \<and> (chain_height env (store st) c > good \<longrightarrow>
        (mock_of env bad_header = None \<longrightarrow>
           (\<forall>c' b. chain_fork env (store st) c bad_header = (Inr c', b) \<and> chain_forkpoint env b c' = bad \<longrightarrow>
              resolve_potential_chain_fork_given_forkpoint env st good bad bad_header
                = (Inr (Fork, bad + 1), st\<lparr>store := b, blockchain := Some c'\<rparr>))
         \<and> (\<forall>c' b. chain_fork env (store st) c bad_header = (Inr c', b) \<and> chain_forkpoint env b c' \<noteq> bad \<longrightarrow>
              resolve_potential_chain_fork_given_forkpoint env st good bad bad_header
                = (Inl (AssertionError ''b.forkpoint == bad''), st\<lparr>store := b, blockchain := Some c'\<rparr>))
         \<and> (\<forall>e b. chain_fork env (store st) c bad_header = (Inl e, b) \<longrightarrow>
              resolve_potential_chain_fork_given_forkpoint env st good bad bad_header
                = (Inl e, st\<lparr>store := b\<rparr>)))
      \<and> (\<forall>m. mock_of env bad_header = Some m \<longrightarrow>
           (\<forall>c'. mock_fork m bad_header = Inr c' \<and> chain_forkpoint env (store st) c' = bad \<longrightarrow>
              resolve_potential_chain_fork_given_forkpoint env st good bad bad_header
                = (Inr (Fork, bad + 1), st\<lparr>blockchain := Some c'\<rparr>))
         \<and> (\<forall>c'. mock_fork m bad_header = Inr c' \<and> chain_forkpoint env (store st) c' \<noteq> bad \<longrightarrow>
              resolve_potential_chain_fork_given_forkpoint env st good bad bad_header
                = (Inl (AssertionError ''b.forkpoint == bad''), st\<lparr>blockchain := Some c'\<rparr>))
         \<and> (\<forall>e. mock_fork m bad_header = Inl e \<longrightarrow>
              resolve_potential_chain_fork_given_forkpoint env st good bad bad_header = (Inl e, st))))
   \<and> (chain_height env (store st) c < good \<longrightarrow>
        resolve_potential_chain_fork_given_forkpoint env st good bad bad_header
          = (Inl (AssertionError ''bh >= good''), st))"
proof (intro impI conjI allI)
  assume a: "good + 1 = bad \<and> bad = block_height env bad_header
     \<and> (mock_of env bad_header = None \<longrightarrow> check_header env (store st) bad_header = None)
     \<and> (\<forall>m. mock_of env bad_header = Some m \<longrightarrow> \<not> truth (mock_check m bad_header))
     \<and> blockchain st = Some c"
  then have "\<not> truth (header_checks env st bad_header)"
    by (cases "mock_of env bad_header") (simp_all add: header_checks_def)
  with a have p: "good + 1 = bad" "bad = block_height env bad_header"
    "\<not> truth (header_checks env st bad_header)" "blockchain st = Some c" by simp_all
  {
    assume "chain_height env (store st) c = good"
    then show "resolve_potential_chain_fork_given_forkpoint env st good bad bad_header
          = (Inr (No_fork, good + 1), st)"
      by (rule resolve_no_fork[OF p])
  }
  {
    assume "chain_height env (store st) c < good"
    then show "resolve_potential_chain_fork_given_forkpoint env st good bad bad_header
          = (Inl (AssertionError ''bh >= good''), st)"
      by (rule resolve_behind[OF p])
  }
  assume h: "good < chain_height env (store st) c"
  note r = resolve_fork[OF p h]
  {
    assume n: "mock_of env bad_header = None"
    {
      fix c' b assume "chain_fork env (store st) c bad_header = (Inr c', b) \<and> chain_forkpoint env b c' = bad"
      then show "resolve_potential_chain_fork_given_forkpoint env st good bad bad_header
               = (Inr (Fork, bad + 1), st\<lparr>store := b, blockchain := Some c'\<rparr>)"
        using r n by (simp add: forkfun_def)
    }
    {
      fix c' b assume "chain_fork env (store st) c bad_header = (Inr c', b) \<and> chain_forkpoint env b c' \<noteq> bad"
      then show "resolve_potential_chain_fork_given_forkpoint env st good bad bad_header
               = (Inl (AssertionError ''b.forkpoint == bad''), st\<lparr>store := b, blockchain := Some c'\<rparr>)"
        using r n by (simp add: forkfun_def)
    }
    {
      fix e b assume "chain_fork env (store st) c bad_header = (Inl e, b)"
      then show "resolve_potential_chain_fork_given_forkpoint env st good bad bad_header
               = (Inl e, st\<lparr>store := b\<rparr>)"
        using r n by (simp add: forkfun_def)
    }
  }
  {
    fix m assume n: "mock_of env bad_header = Some m"
    {
      fix c' assume "mock_fork m bad_header = Inr c' \<and> chain_forkpoint env (store st) c' = bad"
      then show "resolve_potential_chain_fork_given_forkpoint env st good bad bad_header
               = (Inr (Fork, bad + 1), st\<lparr>blockchain := Some c'\<rparr>)"
        using r n by (simp add: forkfun_def)
    }
    {
      fix c' assume "mock_fork m bad_header = Inr c' \<and> chain_forkpoint env (store st) c' \<noteq> bad"
      then show "resolve_potential_chain_fork_given_forkpoint env st good bad bad_header
               = (Inl (AssertionError ''b.forkpoint == bad''), st\<lparr>blockchain := Some c'\<rparr>)"
        using r n by (simp add: forkfun_def)
    }
    {
      fix e assume "mock_fork m bad_header = Inl e"
      then show "resolve_potential_chain_fork_given_forkpoint env st good bad bad_header = (Inl e, st)"
        using r n by (simp add: forkfun_def)
    }
  }
qed

theorem resolve_fork_given_forkpoint_witness:
  "(5::int) + 1 = 6 \<and> 6 = block_height (toy_env 0 ''ab'' plain_server) (6, ''f'')
   \<and> check_header (toy_env 0 ''ab'' plain_server) (store (toy_interface 10 20)) (6, ''f'') = None
   \<and> blockchain (toy_interface 10 20) = Some 0
   \<and> chain_height (toy_env 0 ''ab'' plain_server) (store (toy_interface 10 20)) 0 > 5
   \<and> mock_of (toy_env 0 ''ab'' plain_server) (6, ''f'') = None
   \<and> chain_fork (toy_env 0 ''ab'' plain_server) (store (toy_interface 10 20)) 0 (6, ''f'') = (Inr 6, 6)
   \<and> chain_forkpoint (toy_env 0 ''ab'' plain_server) 6 6 = 6
   \<and> resolve_potential_chain_fork_given_forkpoint (toy_env 0 ''ab'' plain_server) (toy_interface 10 20) 5 6 (6, ''f'')
       = (Inr (Fork, 7), (toy_interface 10 20)\<lparr>store := 6, blockchain := Some 6\<rparr>)
   \<and> chain_height (toy_env 0 ''ab'' plain_server) (store (toy_interface 5 20)) 0 = 5
   \<and> resolve_potential_chain_fork_given_forkpoint (toy_env 0 ''ab'' plain_server) (toy_interface 5 20) 5 6 (6, ''f'')
       = (Inr (No_fork, 6), toy_interface 5 20)
   \<and> mock_of (hooked_env 0 ''ab'' plain_server) (6, ''f'') = Some toy_mock
   \<and> \<not> truth (mock_check toy_mock (6, ''f''))
   \<and> mock_fork toy_mock (6, ''f'') = Inr 6
   \<and> resolve_potential_chain_fork_given_forkpoint (hooked_env 0 ''ab'' plain_server) (toy_interface 10 20) 5 6 (6, ''f'')
       = (Inr (Fork, 7), (toy_interface 10 20)\<lparr>blockchain := Some 6\<rparr>)"
proof -
  let ?env = "toy_env 0 ''ab'' plain_server"
  let ?hooked = "hooked_env 0 ''ab'' plain_server"
  have a: "6 = block_height ?env (6, ''f'')"
    "check_header ?env (store (toy_interface 10 20)) (6, ''f'') = None"
    "check_header ?env (store (toy_interface 5 20)) (6, ''f'') = None"
    "blockchain (toy_interface 10 20) = Some 0" "blockchain (toy_interface 5 20) = Some 0"
    "chain_height ?env (store (toy_interface 10 20)) 0 = 10"
    "chain_height ?env (store (toy_interface 5 20)) 0 = 5"
    "mock_of ?env (6, ''f'') = None"
    "chain_fork ?env (store (toy_interface 10 20)) 0 (6, ''f'') = (Inr 6, 6)"
    "chain_forkpoint ?env 6 6 = 6"
    by (simp_all add: toy_eval)
  have b: "6 = block_height ?hooked (6, ''f'')"
    "\<not> truth (mock_check toy_mock (6, ''f''))"
    "chain_height ?hooked (store (toy_interface 10 20)) 0 = 10"
    "mock_of ?hooked (6, ''f'') = Some toy_mock"
    "mock_fork toy_mock (6, ''f'') = Inr 6"
    "chain_forkpoint ?hooked (store (toy_interface 10 20)) 6 = 6"
    by (simp_all add: hooked_env_def toy_mock_def toy_eval)
  have f: "resolve_potential_chain_fork_given_forkpoint ?env (toy_interface 10 20) 5 6 (6, ''f'')
       = (Inr (Fork, 7), (toy_interface 10 20)\<lparr>store := 6, blockchain := Some 6\<rparr>)"
    using resolve_fork_given_forkpoint [of 5 6 ?env "(6, ''f'')" "toy_interface 10 20" 0] a by simp
  have g: "resolve_potential_chain_fork_given_forkpoint ?env (toy_interface 5 20) 5 6 (6, ''f'')
       = (Inr (No_fork, 6), toy_interface 5 20)"
    using resolve_fork_given_forkpoint [of 5 6 ?env "(6, ''f'')" "toy_interface 5 20" 0] a by simp
  have h: "resolve_potential_chain_fork_given_forkpoint ?hooked (toy_interface 10 20) 5 6 (6, ''f'')
       = (Inr (Fork, 7), (toy_interface 10 20)\<lparr>blockchain := Some 6\<rparr>)"
    using resolve_fork_given_forkpoint [of 5 6 ?hooked "(6, ''f'')" "toy_interface 10 20" 0] a(4) b by simp
  show ?thesis using a b f g h by simp
qed


subsection \<open>Properties of the chunk fetcher\<close>

lemma request_headers_frame:
  "snd (request_headers env st height count) = st\<lparr>session := session (snd (request_headers env st height count))\<rparr>"
  by (simp add: request_headers_def session_request_def send_request_def Let_def split: prod.splits sum.splits)

lemma request_headers_sent:
  "count \<le> 2016 \<Longrightarrow>
   sent (session (snd (request_headers env st height count))) =
     sent (session st) @ [(''blockchain.block.headers'',
        [JInt height, JInt count,
         JInt (if height + count - 1 > max_checkpoint env then 0 else max_checkpoint env)])]"
  by (simp add: request_headers_def session_request_def send_request_def Let_def split: prod.splits sum.splits)

lemma request_headers_answer:
  assumes "request_headers env st height count = (Inr (res, proof_was_provided), st2)"
  shows "server env (sent (session st) @ [(''blockchain.block.headers'',
           [JInt height, JInt count,
            JInt (if height + count - 1 > max_checkpoint env then 0 else max_checkpoint env)])]) = Inr res"
proof (cases "count > 2016")
  case True
  then show ?thesis using assms by (simp add: request_headers_def)
next
  case False
  let ?q = "(''blockchain.block.headers'',
           [JInt height, JInt count,
            JInt (if height + count - 1 > max_checkpoint env then 0 else max_checkpoint env)])"
  show ?thesis
  proof (cases "server env (sent (session st) @ [?q])")
    case (Inl e)
    then show ?thesis using assms False
      by (simp add: request_headers_def session_request_def send_request_def Let_def)
  next
    case (Inr res')
    then have "res' = res" using assms False
      by (auto simp: request_headers_def session_request_def send_request_def Let_def err_bind_def
          split: sum.splits if_splits)
    then show ?thesis using Inr by simp
  qed
qed

lemma chunk_size_le: "chunk_size index tip' \<le> 2016"
  by (simp add: chunk_size_def split: option.splits)

lemma request_chunk_early:
  "can_return_early \<Longrightarrow> height div 2016 \<in> requested_chunks st \<Longrightarrow>
   request_chunk env st height tip' can_return_early = (Inr None, st)"
  by (simp add: request_chunk_def)

lemma request_chunk_late:
  assumes "\<not> (can_return_early \<and> height div 2016 \<in> requested_chunks st)"
  shows "fst (request_chunk env st height tip' can_return_early) \<noteq> Inr None"
    and "fst (request_chunk env st height tip' can_return_early) = Inr (Some (conn, n)) \<Longrightarrow> \<not> conn \<Longrightarrow> n = JInt 0"
    and "requested_chunks (snd (request_chunk env st height tip' can_return_early))
           = requested_chunks st - {height div 2016}"
    and "sent (session (snd (request_chunk env st height tip' can_return_early)))
           = sent (session st) @ [(''blockchain.block.headers'',
               [JInt (height div 2016 * 2016), JInt (chunk_size (height div 2016) tip'),
                JInt (if height div 2016 * 2016 + chunk_size (height div 2016) tip' - 1 > max_checkpoint env
                      then 0 else max_checkpoint env)])]"
    and "fst (request_chunk env st height tip' can_return_early) = Inr (Some (conn, n)) \<Longrightarrow>
         \<exists>res c hexdata proof_was_provided b.
           server env (sent (session st) @ [(''blockchain.block.headers'',
               [JInt (height div 2016 * 2016), JInt (chunk_size (height div 2016) tip'),
                JInt (if height div 2016 * 2016 + chunk_size (height div 2016) tip' - 1 > max_checkpoint env
                      then 0 else max_checkpoint env)])]) = Inr res
         \<and> blockchain st = Some c \<and> py_getitem res ''hex'' = Inr hexdata
         \<and> connect_chunk env (store st) c (height div 2016) hexdata proof_was_provided = (Inr conn, b)
         \<and> store (snd (request_chunk env st height tip' can_return_early)) = b
         \<and> (conn \<longrightarrow> py_getitem res ''count'' = Inr n)"
proof -
  let ?index = "height div 2016"
  let ?st1 = "st\<lparr>requested_chunks := insert ?index (requested_chunks st)\<rparr>"
  let ?rh = "request_headers env ?st1 (?index * 2016) (chunk_size ?index tip')"
  have f: "snd ?rh = ?st1\<lparr>session := session (snd ?rh)\<rparr>" by (rule request_headers_frame)
  have rc: "requested_chunks (snd ?rh) = insert ?index (requested_chunks st)"
    by (subst f) simp
  have se: "sent (session (snd ?rh)) = sent (session st) @ [(''blockchain.block.headers'',
               [JInt (?index * 2016), JInt (chunk_size ?index tip'),
                JInt (if ?index * 2016 + chunk_size ?index tip' - 1 > max_checkpoint env
                      then 0 else max_checkpoint env)])]"
    using request_headers_sent[OF chunk_size_le, of env ?st1 "?index * 2016" ?index tip'] by simp
  have c: "(can_return_early \<and> height div 2016 \<in> requested_chunks st) = False"
    using assms by simp
  obtain r st2 where rh: "?rh = (r, st2)" by (cases ?rh) auto
  have rc2: "requested_chunks st2 = insert ?index (requested_chunks st)"
    using rc rh by simp
  have se2: "sent (session st2) = sent (session st) @ [(''blockchain.block.headers'',
               [JInt (?index * 2016), JInt (chunk_size ?index tip'),
                JInt (if ?index * 2016 + chunk_size ?index tip' - 1 > max_checkpoint env
                      then 0 else max_checkpoint env)])]"
    using se rh by simp
  let ?st3 = "st2\<lparr>requested_chunks := requested_chunks st2 - {?index}\<rparr>"
  have u: "request_chunk env st height tip' can_return_early =
       (case r of
          Inl e \<Rightarrow> (Inl e, ?st3)
        | Inr (res, proof_was_provided) \<Rightarrow>
            (case bound_chain ?st3 of
               Inl e \<Rightarrow> (Inl e, ?st3)
             | Inr c \<Rightarrow>
                 (case py_getitem res ''hex'' of
                    Inl e \<Rightarrow> (Inl e, ?st3)
                  | Inr hexdata \<Rightarrow>
                      (case connect_chunk env (store ?st3) c ?index hexdata proof_was_provided of
                         (Inl e, b) \<Rightarrow> (Inl e, ?st3\<lparr>store := b\<rparr>)
                       | (Inr conn, b) \<Rightarrow>
                           if \<not> conn then (Inr (Some (conn, JInt 0)), ?st3\<lparr>store := b\<rparr>)
                           else (case py_getitem res ''count'' of
                                   Inl e \<Rightarrow> (Inl e, ?st3\<lparr>store := b\<rparr>)
                                 | Inr n \<Rightarrow> (Inr (Some (conn, n)), ?st3\<lparr>store := b\<rparr>))))))"
    unfolding request_chunk_def Let_def c by (simp add: rh)
  show "fst (request_chunk env st height tip' can_return_early) \<noteq> Inr None"
    unfolding u by (simp split: sum.splits prod.splits)
  show "requested_chunks (snd (request_chunk env st height tip' can_return_early))
           = requested_chunks st - {height div 2016}"
    unfolding u using rc2 by (auto split: sum.splits prod.splits)
  show "sent (session (snd (request_chunk env st height tip' can_return_early)))
           = sent (session st) @ [(''blockchain.block.headers'',
               [JInt (height div 2016 * 2016), JInt (chunk_size (height div 2016) tip'),
                JInt (if height div 2016 * 2016 + chunk_size (height div 2016) tip' - 1 > max_checkpoint env
                      then 0 else max_checkpoint env)])]"
    unfolding u using se2 by (auto split: sum.splits prod.splits)
  {
    assume "fst (request_chunk env st height tip' can_return_early) = Inr (Some (conn, n))" "\<not> conn"
    then show "n = JInt 0"
      unfolding u by (auto split: sum.splits prod.splits if_splits)
  }
  assume p: "fst (request_chunk env st height tip' can_return_early) = Inr (Some (conn, n))"
  have st2e: "st2 = ?st1\<lparr>session := session st2\<rparr>" using f rh by simp
  have "blockchain st2 = blockchain st" by (subst st2e) simp
  moreover have "store st2 = store st" by (subst st2e) simp
  ultimately have fr: "blockchain ?st3 = blockchain st" "store ?st3 = store st" by simp_all
  from p obtain res proof_was_provided where r: "r = Inr (res, proof_was_provided)"
    unfolding u by (cases r) auto
  from p r obtain c where c: "bound_chain ?st3 = Inr c"
    unfolding u by (cases "bound_chain ?st3") auto
  from p r c obtain hexdata where hx: "py_getitem res ''hex'' = Inr hexdata"
    unfolding u by (cases "py_getitem res ''hex''") auto
  obtain rc b where cc: "connect_chunk env (store ?st3) c ?index hexdata proof_was_provided = (rc, b)"
    by (cases "connect_chunk env (store ?st3) c ?index hexdata proof_was_provided") auto
  from p r c hx cc have rc: "rc = Inr conn"
    unfolding u by (cases rc) (auto split: if_splits sum.splits)
  have sb: "store (snd (request_chunk env st height tip' can_return_early)) = b"
    using p r c hx cc rc unfolding u by (auto split: if_splits sum.splits)
  have cn: "conn \<longrightarrow> py_getitem res ''count'' = Inr n"
    using p r c hx cc rc unfolding u by (auto split: if_splits sum.splits)
  have an: "server env (sent (session ?st1) @ [(''blockchain.block.headers'',
               [JInt (?index * 2016), JInt (chunk_size ?index tip'),
                JInt (if ?index * 2016 + chunk_size ?index tip' - 1 > max_checkpoint env
                      then 0 else max_checkpoint env)])]) = Inr res"
    using rh r by (intro request_headers_answer) simp
  have bc: "blockchain st = Some c"
    using c fr by (simp add: bound_chain_def split: option.splits)
  show "\<exists>res c hexdata proof_was_provided b.
           server env (sent (session st) @ [(''blockchain.block.headers'',
               [JInt (height div 2016 * 2016), JInt (chunk_size (height div 2016) tip'),
                JInt (if height div 2016 * 2016 + chunk_size (height div 2016) tip' - 1 > max_checkpoint env
                      then 0 else max_checkpoint env)])]) = Inr res
         \<and> blockchain st = Some c \<and> py_getitem res ''hex'' = Inr hexdata
         \<and> connect_chunk env (store st) c (height div 2016) hexdata proof_was_provided = (Inr conn, b)
         \<and> store (snd (request_chunk env st height tip' can_return_early)) = b
         \<and> (conn \<longrightarrow> py_getitem res ''count'' = Inr n)"
    using an bc hx cc rc sb cn fr by auto
qed


text \<open>
  Claim C9. A call \<^verbatim>\<open>request_chunk(height, tip, can_return_early=True)\<close> whose index
  \<open>height // 2016\<close> is among the requested chunks returns \<^verbatim>\<open>None\<close> and changes nothing:
  no request is sent and the set of requested chunks is as before. Every other call
  sends exactly one \<^verbatim>\<open>blockchain.block.headers\<close> request and ends, with a pair or with an
  exception, in a state where the index is not among the requested chunks; the pair is
  \<open>(conn, 0)\<close> when the chunk did not connect. The first component of a pair is what
  \<^verbatim>\<open>connect_chunk\<close> of the bound chain returned for the \<^verbatim>\<open>hex\<close> field of the peer's
  answer, and the second, for a chunk that connected, is the \<^verbatim>\<open>count\<close> field of that
  answer.
\<close>

theorem request_chunk_early_return:
  "(can_return_early \<and> height div 2016 \<in> requested_chunks st \<longrightarrow>
      request_chunk env st height tip' can_return_early = (Inr None, st))
   \<and> (\<not> (can_return_early \<and> height div 2016 \<in> requested_chunks st) \<longrightarrow>
        fst (request_chunk env st height tip' can_return_early) \<noteq> Inr None
      \<and> (\<forall>conn n. fst (request_chunk env st height tip' can_return_early) = Inr (Some (conn, n))
            \<and> \<not> conn \<longrightarrow> n = JInt 0)
      \<and> requested_chunks (snd (request_chunk env st height tip' can_return_early))
           = requested_chunks st - {height div 2016}
      \<and> sent (session (snd (request_chunk env st height tip' can_return_early)))
           = sent (session st) @ [(''blockchain.block.headers'',
               [JInt (height div 2016 * 2016), JInt (chunk_size (height div 2016) tip'),
                JInt (if height div 2016 * 2016 + chunk_size (height div 2016) tip' - 1 > max_checkpoint env
                      then 0 else max_checkpoint env)])]
      \<and> (\<forall>conn n. fst (request_chunk env st height tip' can_return_early) = Inr (Some (conn, n)) \<longrightarrow>
            (\<exists>res c hexdata proof_was_provided b.
               server env (sent (session st) @ [(''blockchain.block.headers'',
                 [JInt (height div 2016 * 2016), JInt (chunk_size (height div 2016) tip'),
                  JInt (if height div 2016 * 2016 + chunk_size (height div 2016) tip' - 1 > max_checkpoint env
                        then 0 else max_checkpoint env)])]) = Inr res
             \<and> blockchain st = Some c \<and> py_getitem res ''hex'' = Inr hexdata
             \<and> connect_chunk env (store st) c (height div 2016) hexdata proof_was_provided = (Inr conn, b)
             \<and> store (snd (request_chunk env st height tip' can_return_early)) = b
             \<and> (conn \<longrightarrow> py_getitem res ''count'' = Inr n))))"
proof (intro conjI impI allI)
  assume "can_return_early \<and> height div 2016 \<in> requested_chunks st"
  then show "request_chunk env st height tip' can_return_early = (Inr None, st)"
    by (simp add: request_chunk_early)
next
  assume a: "\<not> (can_return_early \<and> height div 2016 \<in> requested_chunks st)"
  show "fst (request_chunk env st height tip' can_return_early) \<noteq> Inr None"
    by (rule request_chunk_late(1)[OF a])
  show "requested_chunks (snd (request_chunk env st height tip' can_return_early))
           = requested_chunks st - {height div 2016}"
    by (rule request_chunk_late(3)[OF a])
  show "sent (session (snd (request_chunk env st height tip' can_return_early)))
           = sent (session st) @ [(''blockchain.block.headers'',
               [JInt (height div 2016 * 2016), JInt (chunk_size (height div 2016) tip'),
                JInt (if height div 2016 * 2016 + chunk_size (height div 2016) tip' - 1 > max_checkpoint env
                      then 0 else max_checkpoint env)])]"
    by (rule request_chunk_late(4)[OF a])
  {
    fix conn n
    assume "fst (request_chunk env st height tip' can_return_early) = Inr (Some (conn, n)) \<and> \<not> conn"
    then show "n = JInt 0"
      using request_chunk_late(2)[OF a, of env tip' conn n] by simp
  }
  fix conn n
  assume "fst (request_chunk env st height tip' can_return_early) = Inr (Some (conn, n))"
  then show "\<exists>res c hexdata proof_was_provided b.
               server env (sent (session st) @ [(''blockchain.block.headers'',
                 [JInt (height div 2016 * 2016), JInt (chunk_size (height div 2016) tip'),
                  JInt (if height div 2016 * 2016 + chunk_size (height div 2016) tip' - 1 > max_checkpoint env
                        then 0 else max_checkpoint env)])]) = Inr res
             \<and> blockchain st = Some c \<and> py_getitem res ''hex'' = Inr hexdata
             \<and> connect_chunk env (store st) c (height div 2016) hexdata proof_was_provided = (Inr conn, b)
             \<and> store (snd (request_chunk env st height tip' can_return_early)) = b
             \<and> (conn \<longrightarrow> py_getitem res ''count'' = Inr n)"
    by (rule request_chunk_late(5)[OF a])
qed

lemma request_chunk_garbled:
  "request_chunk (toy_env 0 ''ab'' garbled_server) ((toy_interface 4100 5000)\<lparr>requested_chunks := {2, 7}\<rparr>)
       4101 (Some 5000) False
     = (Inr (Some (False, JInt 0)),
        (toy_interface 4100 5000)\<lparr>requested_chunks := {7},
           session := NotificationSession_init
             \<lparr>msg_counter := 1, sent := [(''blockchain.block.headers'', [JInt 4032, JInt 969, JInt 0])]\<rparr>\<rparr>)"
  by (simp add: request_chunk_def request_headers_def chunk_size_def toy_eval)

lemma request_chunk_connected:
  "request_chunk (toy_env 0 ''ab'' chunk_server) ((toy_interface 4031 5000)\<lparr>requested_chunks := {2, 7}\<rparr>)
       4101 (Some 5000) False
     = (Inr (Some (True, JInt 1)),
        (toy_interface 4031 5000)\<lparr>requested_chunks := {7},
           session := NotificationSession_init
             \<lparr>msg_counter := 1, sent := [(''blockchain.block.headers'', [JInt 4032, JInt 969, JInt 0])]\<rparr>,
           store := 4032\<rparr>)"
  by (simp add: request_chunk_def request_headers_def chunk_size_def toy_eval)

lemma request_chunk_raises:
  "request_chunk (toy_env 0 ''ab'' plain_server) ((toy_interface 4100 5000)\<lparr>requested_chunks := {2, 7}\<rparr>)
       4101 (Some 5000) False
     = (Inl (TypeError ''string indices must be integers''),
        (toy_interface 4100 5000)\<lparr>requested_chunks := {7},
           session := NotificationSession_init
             \<lparr>msg_counter := 1, sent := [(''blockchain.block.headers'', [JInt 4032, JInt 969, JInt 0])]\<rparr>\<rparr>)"
  by (simp add: request_chunk_def request_headers_def chunk_size_def toy_eval)

theorem request_chunk_early_return_witness:
  "(4200::int) div 2016 \<in> requested_chunks ((toy_interface 4100 5000)\<lparr>requested_chunks := {2, 7}\<rparr>)
   \<and> request_chunk (toy_env 0 ''ab'' garbled_server) ((toy_interface 4100 5000)\<lparr>requested_chunks := {2, 7}\<rparr>)
         4200 (Some 5000) True
       = (Inr None, (toy_interface 4100 5000)\<lparr>requested_chunks := {2, 7}\<rparr>)
   \<and> request_chunk (toy_env 0 ''ab'' garbled_server) ((toy_interface 4100 5000)\<lparr>requested_chunks := {2, 7}\<rparr>)
         4101 (Some 5000) False
       = (Inr (Some (False, JInt 0)),
          (toy_interface 4100 5000)\<lparr>requested_chunks := {7},
             session := NotificationSession_init
               \<lparr>msg_counter := 1, sent := [(''blockchain.block.headers'', [JInt 4032, JInt 969, JInt 0])]\<rparr>\<rparr>)
   \<and> requested_chunks (snd (request_chunk (toy_env 0 ''ab'' plain_server)
         ((toy_interface 4100 5000)\<lparr>requested_chunks := {2, 7}\<rparr>) 4101 (Some 5000) False)) = {7}
   \<and> isl (fst (request_chunk (toy_env 0 ''ab'' plain_server)
         ((toy_interface 4100 5000)\<lparr>requested_chunks := {2, 7}\<rparr>) 4101 (Some 5000) False))
   \<and> request_chunk (toy_env 0 ''ab'' chunk_server) ((toy_interface 4031 5000)\<lparr>requested_chunks := {2, 7}\<rparr>)
         4101 (Some 5000) False
       = (Inr (Some (True, JInt 1)),
          (toy_interface 4031 5000)\<lparr>requested_chunks := {7},
             session := NotificationSession_init
               \<lparr>msg_counter := 1, sent := [(''blockchain.block.headers'', [JInt 4032, JInt 969, JInt 0])]\<rparr>,
             store := 4032\<rparr>)"
proof -
  let ?st = "(toy_interface 4100 5000)\<lparr>requested_chunks := {2, 7}\<rparr>"
  have i: "(4200::int) div 2016 \<in> requested_chunks ?st" by simp
  have e: "request_chunk (toy_env 0 ''ab'' garbled_server) ?st 4200 (Some 5000) True = (Inr None, ?st)"
    using request_chunk_early_return [of True 4200 ?st "toy_env 0 ''ab'' garbled_server" "Some 5000"] i by blast
  have n: "\<not> (False \<and> (4101::int) div 2016 \<in> requested_chunks ?st)" by simp
  have r: "requested_chunks (snd (request_chunk (toy_env 0 ''ab'' plain_server) ?st 4101 (Some 5000) False))
             = requested_chunks ?st - {4101 div 2016}"
    using request_chunk_early_return [of False 4101 ?st "toy_env 0 ''ab'' plain_server" "Some 5000"] n by blast
  have d: "requested_chunks ?st - {(4101::int) div 2016} = {7}" by auto
  have l: "isl (fst (request_chunk (toy_env 0 ''ab'' plain_server) ?st 4101 (Some 5000) False))"
    by (simp add: request_chunk_raises)
  show ?thesis
    using i e request_chunk_garbled r d l request_chunk_connected by (simp only: simp_thms)
qed


subsection \<open>The tip view during synchronisation\<close>

text \<open>
  \<^verbatim>\<open>self.tip\<close> and \<^verbatim>\<open>self.tip_header\<close> are assigned in \<^verbatim>\<open>run_fetch_blocks\<close> only, and
  the \<^verbatim>\<open>ready\<close> future is set in \<^verbatim>\<open>mark_ready\<close> only: the fetchers, the searches,
  \<^verbatim>\<open>step\<close> and \<^verbatim>\<open>sync_until\<close> keep all three.
\<close>

definition tip_kept :: "('h, 'c, 'b) interface \<Rightarrow> ('h, 'c, 'b) interface \<Rightarrow> bool" where
  "tip_kept st st' = (tip st' = tip st \<and> tip_header st' = tip_header st \<and> ready st' = ready st)"

lemma tip_kept_refl: "tip_kept st st"
  by (simp add: tip_kept_def)

lemma tip_kept_trans: "tip_kept st st1 \<Longrightarrow> tip_kept st1 st2 \<Longrightarrow> tip_kept st st2"
  by (simp add: tip_kept_def)

lemma tip_kept_rebind: "tip_kept st (rebind chain st)"
  by (cases chain) (simp_all add: tip_kept_def rebind_def)

lemma get_block_header_tip:
  "get_block_header env st height must_provide_proof = (r, st') \<Longrightarrow> tip_kept st st'"
  by (auto simp: get_block_header_def session_request_def send_request_def Let_def tip_kept_def
      split: prod.splits sum.splits bool.splits if_splits)

lemma request_headers_tip:
  "request_headers env st height count = (r, st') \<Longrightarrow> tip_kept st st'"
  by (auto simp: request_headers_def session_request_def send_request_def Let_def tip_kept_def
      split: prod.splits sum.splits if_splits)

lemma request_chunk_tip:
  assumes "request_chunk env st height tip' can_return_early = (r, st')"
  shows "tip_kept st st'"
proof (cases "can_return_early \<and> height div 2016 \<in> requested_chunks st")
  case True
  then show ?thesis using assms by (simp add: request_chunk_def tip_kept_def)
next
  case False
  let ?st1 = "st\<lparr>requested_chunks := insert (height div 2016) (requested_chunks st)\<rparr>"
  obtain r2 st2 where rh: "request_headers env ?st1 (height div 2016 * 2016) (chunk_size (height div 2016) tip') = (r2, st2)"
    by (cases "request_headers env ?st1 (height div 2016 * 2016) (chunk_size (height div 2016) tip')") auto
  have "tip_kept ?st1 st2" using rh by (rule request_headers_tip)
  then have k: "tip st2 = tip st" "tip_header st2 = tip_header st" "ready st2 = ready st"
    by (simp_all add: tip_kept_def)
  have c: "(can_return_early \<and> height div 2016 \<in> requested_chunks st) = False" using False by simp
  show ?thesis
    using assms k unfolding request_chunk_def Let_def c
    by (auto simp: rh tip_kept_def split: sum.splits prod.splits if_splits)
qed

lemma iterate_tip:
  "iterate env st height = (r, st') \<Longrightarrow> tip_kept st st'"
  by (auto simp: iterate_def Let_def split: prod.splits sum.splits if_splits dest: get_block_header_tip)

lemma backwards_loop_tip:
  assumes "backwards_loop env st height bad bad_header = Some y"
  shows "tip_kept st (snd y)"
proof (rule backwards_loop.raw_induct
    [where P = "\<lambda>env st height bad bad_header y. tip_kept st (snd y)", OF _ assms])
  fix loop :: "('a, 'b, 'c) env \<Rightarrow> ('a, 'b, 'c) interface \<Rightarrow> int \<Rightarrow> int \<Rightarrow> 'a
       \<Rightarrow> ((error + int \<times> 'a \<times> int \<times> 'a \<times> bool) \<times> ('a, 'b, 'c) interface) option"
    and env st height bad bad_header y
  assume ih: "\<And>env st height bad bad_header y.
      loop env st height bad bad_header = Some y \<Longrightarrow> tip_kept st (snd y)"
    and e: "(case iterate env st height of
        (Inl e, st1) \<Rightarrow> Some (Inl e, st1)
      | (Inr (again, height1, header, proof_was_provided), st1) \<Rightarrow>
          if again
          then loop env st1 (tip st1 - 2 * (tip st1 - height1)) height1 header
          else (case assert_header_does_not_check_against_any_chain env st1 bad_header of
                  Inl e \<Rightarrow> Some (Inl e, st1)
                | Inr u \<Rightarrow> Some (Inr (height1, header, bad, bad_header, proof_was_provided), st1))) = Some y"
  obtain r st1 where it: "iterate env st height = (r, st1)" by (cases "iterate env st height") auto
  have k: "tip_kept st st1" using it by (rule iterate_tip)
  show "tip_kept st (snd y)"
  proof (cases r)
    case (Inl x)
    then show ?thesis using e it k by auto
  next
    case (Inr v)
    obtain again height1 header p where v: "v = (again, height1, header, p)" by (cases v) auto
    show ?thesis
    proof (cases again)
      case True
      then have "loop env st1 (tip st1 - 2 * (tip st1 - height1)) height1 header = Some y"
        using e it Inr v by simp
      then have "tip_kept st1 (snd y)" by (rule ih)
      with k show ?thesis by (rule tip_kept_trans)
    next
      case False
      then show ?thesis using e it Inr v k by (auto split: sum.splits)
    qed
  qed
qed


lemma search_headers_backwards_tip:
  "search_headers_backwards env st height header = Some y \<Longrightarrow> tip_kept st (snd y)"
  by (auto simp: search_headers_backwards_def Let_def tip_kept_refl split: sum.splits dest: backwards_loop_tip)

lemma rebind_fields:
  "tip (rebind chain st) = tip st" "tip_header (rebind chain st) = tip_header st"
  "ready (rebind chain st) = ready st" "session (rebind chain st) = session st"
  "store (rebind chain st) = store st" "requested_chunks (rebind chain st) = requested_chunks st"
  by (cases chain; simp add: rebind_def)+

lemma binary_loop_tip:
  "binary_loop env st good bad bad_header = (r, st') \<Longrightarrow> tip_kept st st'"
proof (induction env st good bad bad_header arbitrary: r st' rule: binary_loop.induct)
  case (1 env st good bad bad_header)
  show ?case
  proof (cases "good < bad")
    case False
    then show ?thesis using "1.prems" by (simp add: tip_kept_refl binary_loop.simps[of env st good bad])
  next
    case lt: True
    then have nn: "\<not> \<not> good < bad" by simp
    let ?h = "(good + bad) div 2"
    obtain r1 st1 where g: "(r1, st1) = get_block_header env st ?h False"
      by (cases "get_block_header env st ?h False") auto
    have k: "tip_kept st st1" using g[symmetric] by (rule get_block_header_tip)
    show ?thesis
    proof (cases r1)
      case (Inl e)
      then show ?thesis using "1.prems" lt g[symmetric] k by (simp add: Let_def binary_loop.simps[of env st good bad])
    next
      case (Inr v)
      obtain header p where v: "(header, p) = v" by (cases v) auto
      let ?chain = "header_checks env st1 header"
      show ?thesis
      proof (cases "truth ?chain")
        case c: True
        have k2: "tip_kept st (rebind ?chain st1)"
          using k tip_kept_rebind by (rule tip_kept_trans)
        show ?thesis
        proof (cases "?h + 1 = bad")
          case True
          then show ?thesis using "1.prems" lt g[symmetric] Inr v[symmetric] c k2 by (simp add: Let_def binary_loop.simps[of env st good bad])
        next
          case False
          then have "binary_loop env (rebind ?chain st1) ?h bad bad_header = (r, st')"
            using "1.prems" lt g[symmetric] Inr v[symmetric] c by (simp add: Let_def binary_loop.simps[of env st good bad])
          then have "tip_kept (rebind ?chain st1) st'"
            by (rule "1.IH"(1)[OF nn refl g Inr v refl c False])
          with k2 show ?thesis by (rule tip_kept_trans)
        qed
      next
        case c: False
        show ?thesis
        proof (cases "good + 1 = ?h")
          case True
          then show ?thesis using "1.prems" lt g[symmetric] Inr v[symmetric] c k by (simp add: Let_def binary_loop.simps[of env st good bad])
        next
          case False
          then have "binary_loop env st1 good ?h header = (r, st')"
            using "1.prems" lt g[symmetric] Inr v[symmetric] c by (simp add: Let_def binary_loop.simps[of env st good bad])
          then have "tip_kept st1 st'"
            by (rule "1.IH"(2)[OF nn refl g Inr v refl c False])
          with k show ?thesis by (rule tip_kept_trans)
        qed
      qed
    qed
  qed
qed


lemma resolve_tip:
  "tip_kept st (snd (resolve_potential_chain_fork_given_forkpoint env st good bad bad_header))"
  by (simp add: resolve_potential_chain_fork_given_forkpoint_def Let_def tip_kept_def
      split: sum.split prod.split)

lemma step_connect_tip:
  "tip_kept st (snd (step_connect env st height header connect))"
  by (simp add: step_connect_def tip_kept_def split: truthy.split sum.split prod.split)

lemma binary_loop_tip_fields:
  assumes "binary_loop env st good bad bad_header = (r, st')"
  shows "tip st' = tip st \<and> tip_header st' = tip_header st \<and> ready st' = ready st"
  using binary_loop_tip[OF assms] by (simp add: tip_kept_def)

lemma search_headers_binary_tip:
  "tip_kept st (snd (search_headers_binary env st height bad bad_header chain))"
  by (auto simp: search_headers_binary_def Let_def tip_kept_def rebind_fields
      split: sum.split prod.split dest!: binary_loop_tip_fields)


lemma step_tip:
  assumes "step env st height header_arg = Some y"
  shows "tip_kept st (snd y)"
proof (cases "0 \<le> height \<and> height \<le> tip st")
  case False
  then show ?thesis using assms by (auto simp: step_def tip_kept_refl)
next
  case rng: True
  obtain r1 st1 where g: "(case header_arg of None \<Rightarrow> get_block_header env st height False
                            | Some h \<Rightarrow> (Inr (h, False), st)) = (r1, st1)"
    by (cases "case header_arg of None \<Rightarrow> get_block_header env st height False
                            | Some h \<Rightarrow> (Inr (h, False), st)") auto
  have k: "tip_kept st st1"
    using g by (cases header_arg) (auto simp: tip_kept_refl dest: get_block_header_tip)
  show ?thesis
  proof (cases r1)
    case (Inl e)
    then have "y = (Inl e, st1)" using assms rng g by (simp add: step_def)
    then show ?thesis using k by simp
  next
    case (Inr v)
    obtain header p where v: "v = (header, p)" by (cases v) auto
    show ?thesis
    proof (cases "truth (header_checks env st1 header)")
      case True
      then have "snd y = rebind (header_checks env st1 header) st1"
        using assms rng g Inr v by (auto simp: step_def Let_def)
      then show ?thesis using k tip_kept_rebind[of st1] tip_kept_trans by metis
    next
      case nc: False
      show ?thesis
      proof (cases "truth (header_connects env st1 header p height)")
        case True
        then have "y = step_connect env st1 height header (header_connects env st1 header p height)"
          using assms rng g Inr v nc by (simp add: step_def Let_def)
        then have "tip_kept st1 (snd y)" by (simp add: step_connect_tip)
        with k show ?thesis by (rule tip_kept_trans)
      next
        case ncon: False
        obtain z where sb: "search_headers_backwards env st1 height header = Some z"
          using assms rng g Inr v nc ncon
          by (cases "search_headers_backwards env st1 height header") (auto simp: step_def Let_def)
        obtain r2 st2 where z: "z = (r2, st2)" by (cases z) auto
        have "tip_kept st1 (snd z)" using sb by (rule search_headers_backwards_tip)
        with k z have k2: "tip_kept st st2" using tip_kept_trans by fastforce
        show ?thesis
        proof (cases r2)
          case (Inl e)
          then have "y = (Inl e, st2)" using assms rng g Inr v nc ncon sb z by (simp add: step_def Let_def)
          then show ?thesis using k2 by simp
        next
          case r2: (Inr w)
          obtain height2 header2 bad bad_header proof2 where w: "w = (height2, header2, bad, bad_header, proof2)"
            by (cases w) auto
          let ?chain2 = "header_checks env st2 header2"
          let ?connect2 = "header_connects env st2 header2 proof2 height2"
          have e: "y =
              (if \<not> (truth ?chain2 \<or> truth ?connect2) then (Inl (AssertionError ''chain or can_connect''), st2)
               else if truth ?connect2 then step_connect env st2 height2 header2 ?connect2
               else
                 case search_headers_binary env st2 height2 bad bad_header ?chain2 of
                   (Inl e, st3) \<Rightarrow> (Inl e, st3)
                 | (Inr (good, bad3, bad_header3), st3) \<Rightarrow>
                     resolve_potential_chain_fork_given_forkpoint env st3 good bad3 bad_header3)"
            using assms rng g Inr v nc ncon sb z r2 w
            by (auto simp: step_def Let_def split: prod.splits sum.splits if_splits)
          have "tip_kept st2 (snd y)"
          proof (cases "\<not> (truth ?chain2 \<or> truth ?connect2)")
            case True
            then show ?thesis using e by (simp add: tip_kept_refl)
          next
            case f1: False
            show ?thesis
            proof (cases "truth ?connect2")
              case True
              then show ?thesis using e f1 by (simp add: step_connect_tip)
            next
              case f2: False
              obtain r3 st3 where bs: "search_headers_binary env st2 height2 bad bad_header ?chain2 = (r3, st3)"
                by (cases "search_headers_binary env st2 height2 bad bad_header ?chain2") auto
              have k3: "tip_kept st2 st3" using search_headers_binary_tip[of st2 env height2 bad bad_header ?chain2] bs by simp
              show ?thesis
              proof (cases r3)
                case (Inl e3)
                then show ?thesis using e f1 f2 bs k3 by simp
              next
                case (Inr u)
                obtain good bad3 bad_header3 where u: "u = (good, bad3, bad_header3)" by (cases u) auto
                have "y = resolve_potential_chain_fork_given_forkpoint env st3 good bad3 bad_header3"
                  using e f1 f2 bs Inr u by simp
                then have "tip_kept st3 (snd y)" by (simp add: resolve_tip)
                with k3 show ?thesis by (rule tip_kept_trans)
              qed
            qed
          qed
          with k2 show ?thesis by (rule tip_kept_trans)
        qed
      qed
    qed
  qed
qed


lemma request_chunk_tip_snd:
  "tip_kept st (snd (request_chunk env st height tip' can_return_early))"
  using request_chunk_tip[of env st height tip' can_return_early]
  by (cases "request_chunk env st height tip' can_return_early") simp

lemma sync_iteration_tip:
  assumes "sync_iteration env st last' height next_height = Some y"
  shows "tip_kept st (snd y)"
proof (cases "next_height > height + 10")
  case False
  then obtain z where s: "step env st height None = Some z"
    using assms by (cases "step env st height None") (auto simp: sync_iteration_def)
  have k: "tip_kept st (snd z)" using s by (rule step_tip)
  have "snd y = snd z"
    using assms False s by (auto simp: sync_iteration_def split: prod.splits sum.splits if_splits)
  then show ?thesis using k by simp
next
  case True
  obtain r1 st1 where rc: "request_chunk env st height (Some next_height) False = (r1, st1)"
    by (cases "request_chunk env st height (Some next_height) False") auto
  have k: "tip_kept st st1" using rc by (rule request_chunk_tip)
  show ?thesis
  proof (cases "\<exists>n. r1 = Inr (Some (False, n)) \<and> \<not> height \<le> max_checkpoint env")
    case True
    then have "step env st1 height None = Some y"
      using assms \<open>next_height > height + 10\<close> rc by (auto simp: sync_iteration_def)
    then have "tip_kept st1 (snd y)" by (rule step_tip)
    with k show ?thesis by (rule tip_kept_trans)
  next
    case False
    then have "snd y = st1"
      using assms \<open>next_height > height + 10\<close> rc
      by (auto simp: sync_iteration_def Let_def split: prod.splits sum.splits option.splits if_splits)
    then show ?thesis using k by simp
  qed
qed

lemma sync_loop_tip:
  assumes "sync_loop env st last' height next_height = Some y"
  shows "tip_kept st (snd y)"
proof (rule sync_loop.raw_induct
    [where P = "\<lambda>env st last' height next_height y. tip_kept st (snd y)", OF _ assms])
  fix loop :: "('a, 'b, 'c) env \<Rightarrow> ('a, 'b, 'c) interface \<Rightarrow> mode option \<Rightarrow> int \<Rightarrow> int
       \<Rightarrow> ((error + mode option \<times> int) \<times> ('a, 'b, 'c) interface) option"
    and env st last' height next_height y
  assume ih: "\<And>env st last' height next_height y.
      loop env st last' height next_height = Some y \<Longrightarrow> tip_kept st (snd y)"
    and e: "(if last' = None \<or> height \<le> next_height then
        (case sync_iteration env st last' height next_height of
           None \<Rightarrow> None
         | Some (Inl e, st1) \<Rightarrow> Some (Inl e, st1)
         | Some (Inr (last1, height1), st1) \<Rightarrow> loop env st1 (Some last1) height1 next_height)
      else Some (Inr (last', height), st)) = Some y"
  show "tip_kept st (snd y)"
  proof (cases "last' = None \<or> height \<le> next_height")
    case False
    then show ?thesis using e by (auto simp: tip_kept_refl)
  next
    case True
    then obtain z where it: "sync_iteration env st last' height next_height = Some z"
      using e by (cases "sync_iteration env st last' height next_height") auto
    obtain r1 st1 where z: "z = (r1, st1)" by (cases z) auto
    have k: "tip_kept st st1" using sync_iteration_tip[OF it] z by simp
    show ?thesis
    proof (cases r1)
      case (Inl x)
      then show ?thesis using e True it z k by auto
    next
      case (Inr v)
      obtain last1 height1 where v: "v = (last1, height1)" by (cases v) auto
      have "loop env st1 (Some last1) height1 next_height = Some y"
        using e True it z Inr v by simp
      then have "tip_kept st1 (snd y)" by (rule ih)
      with k show ?thesis by (rule tip_kept_trans)
    qed
  qed
qed

lemma process_header_at_tip_tip:
  assumes "process_header_at_tip env st = Some y"
  shows "tip_kept st (snd y)"
proof (cases "bound_chain st")
  case (Inl e)
  then show ?thesis using assms by (auto simp: process_header_at_tip_def tip_kept_refl)
next
  case (Inr c)
  show ?thesis
  proof (cases "chain_height env (store st) c \<ge> tip st \<and> chain_check_header env (store st) c (tip_header st)")
    case True
    then show ?thesis using assms Inr by (auto simp: process_header_at_tip_def Let_def tip_kept_refl)
  next
    case False
    then obtain z where s: "step env st (tip st) (tip_header st) = Some z"
      using assms Inr by (cases "step env st (tip st) (tip_header st)") (auto simp: process_header_at_tip_def Let_def)
    obtain r1 st1 where z: "z = (r1, st1)" by (cases z) auto
    have k: "tip_kept st st1" using step_tip[OF s] z by simp
    show ?thesis
    proof (cases "\<exists>m height1. r1 = Inr (m, height1) \<and> height1 \<le> tip st1")
      case True
      then obtain m height1 where r: "r1 = Inr (m, height1)" "height1 \<le> tip st1" by auto
      then obtain w where su: "sync_until env st1 height1 None = Some w"
        using assms Inr False s z
        by (cases "sync_until env st1 height1 None") (auto simp: process_header_at_tip_def Let_def)
      have "tip_kept st1 (snd w)" using su sync_loop_tip by (simp add: sync_until_def)
      moreover have "snd y = snd w"
        using assms Inr False s z r su
        by (auto simp: process_header_at_tip_def Let_def split: prod.splits sum.splits)
      ultimately show ?thesis using k tip_kept_trans by metis
    next
      case nf: False
      then have "snd y = st1"
        using assms Inr False s z
        by (auto simp: process_header_at_tip_def Let_def split: prod.splits sum.splits if_splits)
      then show ?thesis using k by simp
    qed
  qed
qed


lemma mark_ready_tip:
  "tip (snd (mark_ready env st)) = tip st \<and> tip_header (snd (mark_ready env st)) = tip_header st"
  by (simp add: mark_ready_def Let_def split: option.split)

lemma fetch_blocks_item_below:
  assumes "parse_tip_item env item = Inr (header, hv)" "py_num hv = Inr height" "height < max_checkpoint env"
  shows "fetch_blocks_item env st item
           = Some (Inl (GracefulDisconnect ''server tip below max checkpoint''),
                   st\<lparr>tip_header := Some header, tip := height\<rparr>)"
  using assms by (simp add: fetch_blocks_item_def Let_def)

lemma fetch_blocks_item_not_a_number:
  assumes "parse_tip_item env item = Inr (header, hv)" "py_num hv = Inl e"
  shows "fetch_blocks_item env st item
           = Some (Inl (TypeError ''< not supported between instances''), st\<lparr>tip_header := Some header\<rparr>)"
  using assms by (simp add: fetch_blocks_item_def)

lemma fetch_blocks_item_continues:
  assumes "fetch_blocks_item env st item = Some (Inr (), st')"
  shows "tip_header st' \<noteq> None \<and> max_checkpoint env \<le> tip st'"
proof -
  obtain header hv where p: "parse_tip_item env item = Inr (header, hv)"
    using assms by (cases "parse_tip_item env item") (auto simp: fetch_blocks_item_def)
  obtain height where n: "py_num hv = Inr height"
    using assms p by (cases "py_num hv") (auto simp: fetch_blocks_item_def)
  let ?st1 = "st\<lparr>tip_header := Some header, tip := height\<rparr>"
  have ge: "\<not> height < max_checkpoint env"
    using assms p n by (auto simp: fetch_blocks_item_def Let_def split: if_splits)
  obtain r2 st2 where m: "mark_ready env ?st1 = (r2, st2)" by (cases "mark_ready env ?st1") auto
  have t2: "tip st2 = height" "tip_header st2 = Some header"
    using mark_ready_tip[of env ?st1] m by simp_all
  have "process_header_at_tip env st2 = Some (Inr (), st')"
    using assms p n ge m by (auto simp: fetch_blocks_item_def Let_def split: sum.splits)
  then have "tip_kept st2 st'" using process_header_at_tip_tip by fastforce
  then show ?thesis using t2 ge by (simp add: tip_kept_def)
qed

lemma run_fetch_blocks_tip_view:
  assumes "run_fetch_blocks env st items = Some (Inr (), st')"
    and "tip_header st = None \<or> max_checkpoint env \<le> tip st"
  shows "tip_header st' = None \<or> max_checkpoint env \<le> tip st'"
  using assms
proof (induction items arbitrary: st)
  case Nil
  then show ?case by simp
next
  case (Cons item items)
  from Cons.prems(1) obtain st1 where
    f: "fetch_blocks_item env st item = Some (Inr (), st1)"
    and r: "run_fetch_blocks env st1 items = Some (Inr (), st')"
    by (auto split: option.splits sum.splits prod.splits)
  have "tip_header st1 = None \<or> max_checkpoint env \<le> tip st1"
    using fetch_blocks_item_continues[OF f] by simp
  with r show ?case by (rule Cons.IH)
qed

text \<open>
  Claim C5. When the subscription delivers a tip (an item that parses to a header) with
  a height below \<^verbatim>\<open>max_checkpoint()\<close>, \<^verbatim>\<open>run_fetch_blocks\<close> records it and raises the
  graceful disconnect ``server tip below max checkpoint''; \<^verbatim>\<open>mark_ready\<close> is not reached,
  so \<^verbatim>\<open>ready\<close> is as it was. A tip whose height is not a number raises at the same
  comparison, before \<^verbatim>\<open>mark_ready\<close> too. Consequently, after every item that is
  processed without an exception the tip view is set with a height of at least
  \<^verbatim>\<open>max_checkpoint()\<close>, and the same holds after any number of items for a session that
  goes on.
\<close>

theorem tip_below_checkpoint_disconnects:
  "(parse_tip_item env item = Inr (header, hv) \<and> py_num hv = Inr height \<and> height < max_checkpoint env \<longrightarrow>
      fetch_blocks_item env st item
        = Some (Inl (GracefulDisconnect ''server tip below max checkpoint''),
                st\<lparr>tip_header := Some header, tip := height\<rparr>)
    \<and> ready (st\<lparr>tip_header := Some header, tip := height\<rparr>) = ready st)
   \<and> (parse_tip_item env item = Inr (header, hv) \<and> py_num hv = Inl e \<longrightarrow>
      fetch_blocks_item env st item
        = Some (Inl (TypeError ''< not supported between instances''), st\<lparr>tip_header := Some header\<rparr>)
    \<and> ready (st\<lparr>tip_header := Some header\<rparr>) = ready st)
   \<and> (fetch_blocks_item env st item = Some (Inr (), st') \<longrightarrow>
        tip_header st' \<noteq> None \<and> max_checkpoint env \<le> tip st')
   \<and> ((tip_header st = None \<or> max_checkpoint env \<le> tip st)
        \<and> run_fetch_blocks env st items = Some (Inr (), st'') \<longrightarrow>
        tip_header st'' = None \<or> max_checkpoint env \<le> tip st'')"
  using fetch_blocks_item_below[of env item header hv height st]
    fetch_blocks_item_not_a_number[of env item header hv e st]
    fetch_blocks_item_continues[of env st item st']
    run_fetch_blocks_tip_view[of env st items st'']
  by simp


theorem tip_below_checkpoint_disconnects_witness:
  "parse_tip_item (toy_env 100 ''ab'' plain_server) [JDict [(''hex'', JStr ''m''), (''height'', JInt 99)]]
      = Inr ((99, ''m''), JInt 99)
   \<and> py_num (JInt 99) = Inr 99
   \<and> (99::int) < max_checkpoint (toy_env 100 ''ab'' plain_server)
   \<and> fetch_blocks_item (toy_env 100 ''ab'' plain_server) (Interface_init 99)
         [JDict [(''hex'', JStr ''m''), (''height'', JInt 99)]]
       = Some (Inl (GracefulDisconnect ''server tip below max checkpoint''),
               (Interface_init 99)\<lparr>tip_header := Some (99, ''m''), tip := 99\<rparr>)
   \<and> ready ((Interface_init 99 :: (int \<times> string, int, int) interface)\<lparr>tip_header := Some (99, ''m''), tip := 99\<rparr>) = Pending
   \<and> parse_tip_item (toy_env 100 ''ab'' plain_server) [JDict [(''hex'', JStr ''m''), (''height'', JStr ''150'')]]
      = Inr ((0, ''m''), JStr ''150'')
   \<and> fetch_blocks_item (toy_env 100 ''ab'' plain_server) (Interface_init 99)
         [JDict [(''hex'', JStr ''m''), (''height'', JStr ''150'')]]
       = Some (Inl (TypeError ''< not supported between instances''),
               (Interface_init 99)\<lparr>tip_header := Some (0, ''m'')\<rparr>)
   \<and> run_fetch_blocks (toy_env 100 ''ab'' plain_server) (Interface_init 99)
         [[JDict [(''hex'', JStr ''m''), (''height'', JInt 100)]]]
       = Some (Inr (), (Interface_init 99)
           \<lparr>blockchain := Some 0, tip_header := Some (100, ''m''), tip := 100, ready := Done, store := 100\<rparr>)
   \<and> max_checkpoint (toy_env 100 ''ab'' plain_server)
       \<le> tip ((Interface_init 99 :: (int \<times> string, int, int) interface)
           \<lparr>blockchain := Some 0, tip_header := Some (100, ''m''), tip := 100, ready := Done, store := 100\<rparr>)"
proof -
  let ?env = "toy_env 100 ''ab'' plain_server"
  let ?st = "Interface_init 99 :: (int \<times> string, int, int) interface"
  let ?low = "[JDict [(''hex'', JStr ''m''), (''height'', JInt 99)]]"
  let ?str = "[JDict [(''hex'', JStr ''m''), (''height'', JStr ''150'')]]"
  let ?item = "[JDict [(''hex'', JStr ''m''), (''height'', JInt 100)]]"
  let ?st' = "?st\<lparr>blockchain := Some 0, tip_header := Some (100, ''m''), tip := 100, ready := Done, store := 100\<rparr>"
  have p: "parse_tip_item ?env ?low = Inr ((99, ''m''), JInt 99)"
    by (simp add: parse_tip_item_def toy_eval)
  have ps: "parse_tip_item ?env ?str = Inr ((0, ''m''), JStr ''150'')"
    by (simp add: parse_tip_item_def toy_eval)
  have n: "py_num (JInt 99) = Inr 99"
    "py_num (JStr ''150'') = Inl (TypeError ''unsupported operand type(s) for +'')"
    by (simp_all add: py_num_def)
  have m: "max_checkpoint ?env = 100" by (simp add: toy_env_def)
  have i: "tip_header ?st = None" "ready ?st = Pending" by (simp_all add: Interface_init_def)
  have r: "run_fetch_blocks ?env ?st [?item] = Some (Inr (), ?st')"
    by (simp add: fetch_tip_at_checkpoint)
  have a: "fetch_blocks_item ?env ?st ?low
       = Some (Inl (GracefulDisconnect ''server tip below max checkpoint''),
               ?st\<lparr>tip_header := Some (99, ''m''), tip := 99\<rparr>)"
    using tip_below_checkpoint_disconnects [of ?env ?low "(99, ''m'')" "JInt 99" 99 ?st
        "TypeError ''unsupported operand type(s) for +''" ?st' "[?item]" ?st'] p n m by simp
  have c: "fetch_blocks_item ?env ?st ?str
       = Some (Inl (TypeError ''< not supported between instances''), ?st\<lparr>tip_header := Some (0, ''m'')\<rparr>)"
    using tip_below_checkpoint_disconnects [of ?env ?str "(0, ''m'')" "JStr ''150''" 99 ?st
        "TypeError ''unsupported operand type(s) for +''" ?st' "[?item]" ?st'] ps n by simp
  have b: "max_checkpoint ?env \<le> tip ?st'"
    using tip_below_checkpoint_disconnects [of ?env ?item "(100, ''m'')" "JInt 100" 100 ?st
        "TypeError ''unsupported operand type(s) for +''" ?st' "[?item]" ?st'] fetch_tip_at_checkpoint by simp
  show ?thesis using p ps n m i r a b c by simp
qed


subsection \<open>Properties of the backward probe\<close>

lemma Max_insert_insert:
  "finite A \<Longrightarrow> Max (insert (a::int) (insert x A)) = Max (insert (max x a) A)"
proof (cases "A = {}")
  case True
  then show ?thesis by (simp add: max.commute)
next
  case False
  assume f: "finite A"
  have "Max (insert a (insert x A)) = max a (max x (Max A))"
    using f False by simp
  moreover have "Max (insert (max x a) A) = max (max x a) (Max A)"
    using f False by simp
  ultimately show ?thesis by (simp add: max.assoc max.commute)
qed

lemma fold_max_eq: "fold max xs (a::int) = Max (insert a (set xs))"
proof (induction xs arbitrary: a)
  case Nil
  show ?case by simp
next
  case (Cons x xs)
  have "fold max (x # xs) a = Max (insert (max x a) (set xs))" using Cons by simp
  also have "\<dots> = Max (insert a (insert x (set xs)))"
    by (rule Max_insert_insert[symmetric]) simp
  finally show ?case by simp
qed

lemma local_max_eq:
  "local_max env st header =
     (case mock_of env header of
        None \<Rightarrow> Some (Max (insert 0 (set (map (chain_height env (store st)) (chains env (store st))))))
      | Some m \<Rightarrow> None)"
  by (simp add: local_max_def fold_max_eq split: option.split)

lemma iterate_above:
  assumes "height > max_checkpoint env"
    and "get_block_header env st height False = (Inr (header, proof_was_provided), st1)"
  shows "iterate env st height =
     (Inr (\<not> (truth (header_checks env st1 header)
               \<or> truth (header_connects env st1 header proof_was_provided height)),
           height, header, proof_was_provided), st1)"
  using assms by (simp add: iterate_def Let_def)

lemma iterate_clamped:
  assumes "height \<le> max_checkpoint env"
    and "get_block_header env st (max_checkpoint env) False = (Inr (header, proof_was_provided), st1)"
  shows "iterate env st height =
     (if truth (header_checks env st1 header)
            \<or> truth (header_connects env st1 header proof_was_provided (max_checkpoint env))
      then (Inr (False, max_checkpoint env, header, proof_was_provided), st1)
      else (Inl (GracefulDisconnect ''server chain conflicts with checkpoints''), st1))"
  using assms by (simp add: iterate_def Let_def)

lemma iterate_again:
  assumes "iterate env st height = (Inr (True, height1, header, proof_was_provided), st1)"
  shows "height1 = height \<and> height > max_checkpoint env"
  using assms
  by (auto simp: iterate_def Let_def split: prod.splits sum.splits if_splits)

lemma backwards_loop_terminates:
  "height < tip st \<Longrightarrow> \<exists>y. backwards_loop env st height bad bad_header = Some y"
proof (induction "nat (height - max_checkpoint env)" arbitrary: height st bad bad_header rule: less_induct)
  case less
  obtain r st1 where it: "iterate env st height = (r, st1)" by (cases "iterate env st height") auto
  have k: "tip st1 = tip st" using iterate_tip[OF it] by (simp add: tip_kept_def)
  show ?case
  proof (cases r)
    case (Inl e)
    then show ?thesis using it by (subst backwards_loop.simps) simp
  next
    case (Inr v)
    obtain again height1 header p where v: "v = (again, height1, header, p)" by (cases v) auto
    show ?thesis
    proof (cases again)
      case False
      then show ?thesis using it Inr v
        by (subst backwards_loop.simps) (simp split: sum.split)
    next
      case True
      then have a: "height1 = height" "height > max_checkpoint env"
        using iterate_again[of env st height height1 header p st1] it Inr v by simp_all
      let ?next = "tip st1 - 2 * (tip st1 - height1)"
      have lt: "?next < height" "?next < tip st1" using a k less.prems by simp_all
      have "nat (?next - max_checkpoint env) < nat (height - max_checkpoint env)"
        using lt a by simp
      then obtain y where "backwards_loop env st1 ?next height1 header = Some y"
        using less.hyps[of ?next st1 height1 header] lt by blast
      then show ?thesis using it Inr v True
        by (subst backwards_loop.simps) simp
    qed
  qed
qed


text \<open>
  The first probe as the specification words it: \<open>min(local_max + 1, h - 1)\<close> with
  \<open>local_max\<close> the maximum height over all known chains.
\<close>

definition claimed_first_probe :: "('h, 'c, 'b) env \<Rightarrow> ('h, 'c, 'b) interface \<Rightarrow> int \<Rightarrow> int" where
  "claimed_first_probe env st h =
     min (Max (set (map (chain_height env (store st)) (chains env (store st)))) + 1) (h - 1)"

lemma backwards_loop_failed_probe:
  assumes "probe > max_checkpoint env"
    and "get_block_header env st probe False = (Inr (hdr, pwp), st1)"
    and "\<not> truth (header_checks env st1 hdr)" "\<not> truth (header_connects env st1 hdr pwp probe)"
  shows "backwards_loop env st probe bad bad_header
           = backwards_loop env st1 (tip st1 - 2 * (tip st1 - probe)) probe hdr"
  using assms by (subst backwards_loop.simps) (simp add: iterate_above)

lemma backwards_loop_conflict:
  assumes "probe \<le> max_checkpoint env"
    and "get_block_header env st (max_checkpoint env) False = (Inr (hdr, pwp), st1)"
    and "\<not> truth (header_checks env st1 hdr)"
      "\<not> truth (header_connects env st1 hdr pwp (max_checkpoint env))"
  shows "backwards_loop env st probe bad bad_header
           = Some (Inl (GracefulDisconnect ''server chain conflicts with checkpoints''), st1)"
  using assms by (subst backwards_loop.simps) (simp add: iterate_clamped)

lemma backwards_loop_found:
  assumes "get_block_header env st (max probe (max_checkpoint env)) False = (Inr (hdr, pwp), st1)"
    and "truth (header_checks env st1 hdr)
         \<or> truth (header_connects env st1 hdr pwp (max probe (max_checkpoint env)))"
    and "\<not> truth (header_checks env st1 bad_header)"
  shows "backwards_loop env st probe bad bad_header
           = Some (Inr (max probe (max_checkpoint env), hdr, bad, bad_header, pwp), st1)"
proof (cases "probe \<le> max_checkpoint env")
  case True
  then have m: "max probe (max_checkpoint env) = max_checkpoint env" by simp
  show ?thesis
    using assms True unfolding m
    by (subst backwards_loop.simps)
      (simp add: iterate_clamped assert_header_does_not_check_against_any_chain_def)
next
  case False
  then have m: "max probe (max_checkpoint env) = probe" by simp
  show ?thesis
    using assms False unfolding m
    by (subst backwards_loop.simps)
      (auto simp: iterate_above assert_header_does_not_check_against_any_chain_def)
qed

lemma search_headers_backwards_start:
  "\<not> truth (header_checks env st header) \<Longrightarrow>
   search_headers_backwards env st h header =
     backwards_loop env st
       (case local_max env st header of None \<Rightarrow> h - 1 | Some m \<Rightarrow> min (m + 1) (h - 1)) h header"
  by (simp add: search_headers_backwards_def assert_header_does_not_check_against_any_chain_def)

lemma search_headers_backwards_terminates:
  assumes "h \<le> tip st"
  shows "\<exists>y. search_headers_backwards env st h header = Some y"
proof (cases "truth (header_checks env st header)")
  case True
  then show ?thesis
    by (simp add: search_headers_backwards_def assert_header_does_not_check_against_any_chain_def)
next
  case False
  have "(case local_max env st header of None \<Rightarrow> h - 1 | Some m \<Rightarrow> min (m + 1) (h - 1)) < tip st"
    using assms by (auto split: option.split simp: min_def)
  then show ?thesis
    unfolding search_headers_backwards_start[OF False] by (rule backwards_loop_terminates)
qed

text \<open>
  Claim C2, as amended. Given a header at height \<open>h\<close> that checks against no known
  chain, \<^verbatim>\<open>_search_headers_backwards\<close> runs its loop with \<open>bad = h\<close> and
  \<open>bad_header = header\<close> from the probe height \<open>min(local_max + 1, h - 1)\<close>, where
  \<open>local_max\<close> is the maximum of 0 and the heights of all known chains (and is infinite
  for a header with the test hook, so that probing starts at \<open>h - 1\<close>). A probe above
  \<^verbatim>\<open>max_checkpoint()\<close> whose header neither checks nor connects becomes \<open>bad\<close>, and the
  next probe is \<open>tip - 2 * (tip - probe)\<close>. A probe at or below \<^verbatim>\<open>max_checkpoint()\<close> is
  fetched at \<^verbatim>\<open>max_checkpoint()\<close>, and when that header neither checks nor connects the
  search raises the graceful disconnect ``server chain conflicts with checkpoints''. A
  fetched header that checks or connects ends the search. For \<open>h\<close> up to the tip the
  search ends.
\<close>

theorem search_headers_backwards_probes:
  "(\<not> truth (header_checks env st header) \<longrightarrow>
      search_headers_backwards env st h header =
        backwards_loop env st
          (case local_max env st header of None \<Rightarrow> h - 1 | Some m \<Rightarrow> min (m + 1) (h - 1)) h header)
   \<and> local_max env st header =
       (case mock_of env header of
          None \<Rightarrow> Some (Max (insert 0 (set (map (chain_height env (store st)) (chains env (store st))))))
        | Some m \<Rightarrow> None)
   \<and> (probe > max_checkpoint env
        \<and> get_block_header env st probe False = (Inr (hdr, pwp), st1)
        \<and> \<not> truth (header_checks env st1 hdr) \<and> \<not> truth (header_connects env st1 hdr pwp probe) \<longrightarrow>
        backwards_loop env st probe bad bad_header
          = backwards_loop env st1 (tip st1 - 2 * (tip st1 - probe)) probe hdr)
   \<and> (probe \<le> max_checkpoint env
        \<and> get_block_header env st (max_checkpoint env) False = (Inr (hdr, pwp), st1)
        \<and> \<not> truth (header_checks env st1 hdr)
        \<and> \<not> truth (header_connects env st1 hdr pwp (max_checkpoint env)) \<longrightarrow>
        backwards_loop env st probe bad bad_header
          = Some (Inl (GracefulDisconnect ''server chain conflicts with checkpoints''), st1))
   \<and> (get_block_header env st (max probe (max_checkpoint env)) False = (Inr (hdr, pwp), st1)
        \<and> (truth (header_checks env st1 hdr)
             \<or> truth (header_connects env st1 hdr pwp (max probe (max_checkpoint env))))
        \<and> \<not> truth (header_checks env st1 bad_header) \<longrightarrow>
        backwards_loop env st probe bad bad_header
          = Some (Inr (max probe (max_checkpoint env), hdr, bad, bad_header, pwp), st1))
   \<and> (h \<le> tip st \<longrightarrow> (\<exists>y. search_headers_backwards env st h header = Some y))"
  using search_headers_backwards_start[of env st header h]
    local_max_eq[of env st header]
    backwards_loop_failed_probe[of env probe st hdr pwp st1 bad bad_header]
    backwards_loop_conflict[of probe env st hdr pwp st1 bad bad_header]
    backwards_loop_found[of env st probe hdr pwp st1 bad_header bad]
    search_headers_backwards_terminates[of h st env header]
  by blast

lemma probe_empty_chain:
  "search_headers_backwards (toy_env 0 ''ab'' plain_server) (toy_interface (-1) 5) 5 (5, ''m'')
     = Some (Inr (0, (0, ''m''), 1, (1, ''m''), False),
         (toy_interface (-1) 5)\<lparr>session := NotificationSession_init
            \<lparr>msg_counter := 2,
              sent := [(''blockchain.block.header'', [JInt 1, JInt 0]),
                       (''blockchain.block.header'', [JInt 0, JInt 0])]\<rparr>\<rparr>)"
  by (simp add: search_headers_backwards_def local_max_def backwards_loop.simps iterate_def
      get_block_header_def toy_eval)

text \<open>
  The claim as stated takes \<open>local_max\<close> to be the maximum height over the known
  chains. With one known chain that is still empty (its height is \<open>-1\<close>, so that the
  genesis header connects to it), \<^verbatim>\<open>max([0] + heights)\<close> is 0: for \<open>h = 5\<close> the first
  probe is at height 1, not at \<open>min(-1 + 1, 4) = 0\<close>, it fails, and the search returns
  \<open>bad = 1\<close> after two requests.
\<close>

theorem first_probe_empty_chain_counterexample:
  "claimed_first_probe (toy_env 0 ''ab'' plain_server) (toy_interface (-1) 5) 5 = 0
   \<and> search_headers_backwards (toy_env 0 ''ab'' plain_server) (toy_interface (-1) 5) 5 (5, ''m'')
     = Some (Inr (0, (0, ''m''), 1, (1, ''m''), False),
         (toy_interface (-1) 5)\<lparr>session := NotificationSession_init
            \<lparr>msg_counter := 2,
              sent := [(''blockchain.block.header'', [JInt 1, JInt 0]),
                       (''blockchain.block.header'', [JInt 0, JInt 0])]\<rparr>\<rparr>)"
  using probe_empty_chain by (simp add: claimed_first_probe_def toy_env_def toy_interface_def)


lemma gbh_toy_1:
  "get_block_header (toy_env 0 ''ab'' plain_server) (toy_interface (-1) 5) 1 False
     = (Inr ((1, ''m''), False),
        (toy_interface (-1) 5)\<lparr>session := NotificationSession_init
           \<lparr>msg_counter := 1, sent := [(''blockchain.block.header'', [JInt 1, JInt 0])]\<rparr>\<rparr>)"
  by (simp add: get_block_header_def toy_eval)

lemma gbh_toy_0:
  "get_block_header (toy_env 0 ''ab'' plain_server)
      ((toy_interface (-1) 5)\<lparr>session := NotificationSession_init
           \<lparr>msg_counter := 1, sent := [(''blockchain.block.header'', [JInt 1, JInt 0])]\<rparr>\<rparr>)
      (max (- 3) (max_checkpoint (toy_env 0 ''ab'' plain_server))) False
     = (Inr ((0, ''m''), False),
        (toy_interface (-1) 5)\<lparr>session := NotificationSession_init
           \<lparr>msg_counter := 2,
             sent := [(''blockchain.block.header'', [JInt 1, JInt 0]),
                      (''blockchain.block.header'', [JInt 0, JInt 0])]\<rparr>\<rparr>)"
  by (simp add: get_block_header_def toy_eval)

lemma gbh_toy_conflict:
  "get_block_header (toy_env 100 ''ab'' proving_server) (toy_interface 50 200)
      (max_checkpoint (toy_env 100 ''ab'' proving_server)) False
     = (Inr ((100, ''ab''), True),
        (toy_interface 50 200)\<lparr>session := NotificationSession_init
           \<lparr>msg_counter := 1, sent := [(''blockchain.block.header'', [JInt 100, JInt 100])]\<rparr>\<rparr>)"
  by (simp add: get_block_header_def validate_checkpoint_result_def toy_eval)

theorem search_headers_backwards_probes_witness:
  "\<not> truth (header_checks (toy_env 0 ''ab'' plain_server) (toy_interface (-1) 5) (5, ''m''))
   \<and> local_max (toy_env 0 ''ab'' plain_server) (toy_interface (-1) 5) (5, ''m'') = Some 0
   \<and> search_headers_backwards (toy_env 0 ''ab'' plain_server) (toy_interface (-1) 5) 5 (5, ''m'')
       = backwards_loop (toy_env 0 ''ab'' plain_server) (toy_interface (-1) 5) 1 5 (5, ''m'')
   \<and> backwards_loop (toy_env 0 ''ab'' plain_server) (toy_interface (-1) 5) 1 5 (5, ''m'')
       = backwards_loop (toy_env 0 ''ab'' plain_server)
           ((toy_interface (-1) 5)\<lparr>session := NotificationSession_init
              \<lparr>msg_counter := 1, sent := [(''blockchain.block.header'', [JInt 1, JInt 0])]\<rparr>\<rparr>)
           (- 3) 1 (1, ''m'')
   \<and> backwards_loop (toy_env 0 ''ab'' plain_server)
           ((toy_interface (-1) 5)\<lparr>session := NotificationSession_init
              \<lparr>msg_counter := 1, sent := [(''blockchain.block.header'', [JInt 1, JInt 0])]\<rparr>\<rparr>)
           (- 3) 1 (1, ''m'')
       = Some (Inr (0, (0, ''m''), 1, (1, ''m''), False),
           (toy_interface (-1) 5)\<lparr>session := NotificationSession_init
              \<lparr>msg_counter := 2,
                sent := [(''blockchain.block.header'', [JInt 1, JInt 0]),
                         (''blockchain.block.header'', [JInt 0, JInt 0])]\<rparr>\<rparr>)
   \<and> backwards_loop (toy_env 100 ''ab'' proving_server) (toy_interface 50 200) 60 70 (70, ''x'')
       = Some (Inl (GracefulDisconnect ''server chain conflicts with checkpoints''),
           (toy_interface 50 200)\<lparr>session := NotificationSession_init
              \<lparr>msg_counter := 1, sent := [(''blockchain.block.header'', [JInt 100, JInt 100])]\<rparr>\<rparr>)"
proof -
  let ?E = "toy_env 0 ''ab'' plain_server"
  let ?S = "toy_interface (-1) 5"
  let ?S1 = "?S\<lparr>session := NotificationSession_init
              \<lparr>msg_counter := 1, sent := [(''blockchain.block.header'', [JInt 1, JInt 0])]\<rparr>\<rparr>"
  let ?S2 = "?S\<lparr>session := NotificationSession_init
              \<lparr>msg_counter := 2,
                sent := [(''blockchain.block.header'', [JInt 1, JInt 0]),
                         (''blockchain.block.header'', [JInt 0, JInt 0])]\<rparr>\<rparr>"
  let ?E' = "toy_env 100 ''ab'' proving_server"
  let ?S' = "toy_interface 50 200"
  let ?S'1 = "?S'\<lparr>session := NotificationSession_init
              \<lparr>msg_counter := 1, sent := [(''blockchain.block.header'', [JInt 100, JInt 100])]\<rparr>\<rparr>"
  have c: "\<not> truth (header_checks ?E ?S (5, ''m''))" by (simp add: toy_eval)
  have l: "local_max ?E ?S (5, ''m'') = Some 0" by (simp add: local_max_def toy_eval)
  have cp: "max_checkpoint ?E = 0" "max_checkpoint ?E' = 100" by (simp_all add: toy_env_def)
  have t: "tip ?S1 = 5" by (simp add: toy_interface_def)
  have f1: "\<not> truth (header_checks ?E ?S1 (1, ''m''))" "\<not> truth (header_connects ?E ?S1 (1, ''m'') False 1)"
    "\<not> truth (header_checks ?E ?S2 (1, ''m''))"
    "truth (header_connects ?E ?S2 (0, ''m'') False (max (- 3) (max_checkpoint ?E)))"
    by (simp_all add: toy_eval)
  have f2: "\<not> truth (header_checks ?E' ?S'1 (100, ''ab''))"
    "\<not> truth (header_connects ?E' ?S'1 (100, ''ab'') True (max_checkpoint ?E'))"
    by (simp_all add: toy_eval)
  have a: "search_headers_backwards ?E ?S 5 (5, ''m'') = backwards_loop ?E ?S 1 5 (5, ''m'')"
    using search_headers_backwards_probes [of ?E ?S "(5, ''m'')" 5 1 "(1, ''m'')" False ?S1 5 "(5, ''m'')"] c l by simp
  have b: "backwards_loop ?E ?S 1 5 (5, ''m'') = backwards_loop ?E ?S1 (- 3) 1 (1, ''m'')"
    using search_headers_backwards_probes [of ?E ?S "(5, ''m'')" 5 1 "(1, ''m'')" False ?S1 5 "(5, ''m'')"] gbh_toy_1 f1 cp t by simp
  have d: "backwards_loop ?E ?S1 (- 3) 1 (1, ''m'') = Some (Inr (0, (0, ''m''), 1, (1, ''m''), False), ?S2)"
    using search_headers_backwards_probes [of ?E ?S1 "(5, ''m'')" 5 "- 3" "(0, ''m'')" False ?S2 1 "(1, ''m'')"] gbh_toy_0 f1 cp by simp
  have e: "backwards_loop ?E' ?S' 60 70 (70, ''x'')
       = Some (Inl (GracefulDisconnect ''server chain conflicts with checkpoints''), ?S'1)"
    using search_headers_backwards_probes [of ?E' ?S' "(70, ''x'')" 70 60 "(100, ''ab'')" True ?S'1 70 "(70, ''x'')"] gbh_toy_conflict f2 cp by simp
  show ?thesis using c l a b d e by (simp only: simp_thms)
qed


subsection \<open>Progress of the catch-up loop\<close>

text \<open>
  A peer that answers the first request for a chunk with three headers and the count 4,
  every later request for a chunk with a garbled chunk, and every request for a single
  header with the header of the chain.
\<close>

definition lying_server :: "(string \<times> json list) list \<Rightarrow> error + json" where
  "lying_server history =
     (case last history of
        (method, args) \<Rightarrow>
          if method = ''blockchain.block.headers'' then
            (if length history = 1
             then Inr (JDict [(''hex'', JStr (replicate 480 (CHR ''0''))), (''count'', JInt 4)])
             else Inr (JDict [(''hex'', JStr ''zz''), (''count'', JInt 0)]))
          else Inr (JStr ''m''))"

lemmas sync_eval = sync_iteration_def request_chunk_def request_headers_def chunk_size_def
  step_def step_connect_def search_headers_backwards_def local_max_def iterate_def
  get_block_header_def lying_server_def toy_eval

lemma it1:
  "sync_iteration (toy_env 0 ''ab'' lying_server) (toy_interface 1 20) None 2 20
     = Some (Inr (Catchup, 4),
         (toy_interface 1 20)\<lparr>session := NotificationSession_init
            \<lparr>msg_counter := 1, sent := [(''blockchain.block.headers'', [JInt 0, JInt 21, JInt 0])]\<rparr>,
            store := 2\<rparr>)"
  by (simp add: sync_eval)


lemma it2:
  "sync_iteration (toy_env 0 ''ab'' lying_server)
      ((toy_interface 1 20)\<lparr>session := NotificationSession_init
            \<lparr>msg_counter := 1, sent := [(''blockchain.block.headers'', [JInt 0, JInt 21, JInt 0])]\<rparr>,
            store := 2\<rparr>)
      (Some Catchup) 4 20
     = Some (Inr (Catchup, 4),
         (toy_interface 1 20)\<lparr>session := NotificationSession_init
            \<lparr>msg_counter := 4,
              sent := [(''blockchain.block.headers'', [JInt 0, JInt 21, JInt 0]),
                       (''blockchain.block.headers'', [JInt 0, JInt 21, JInt 0]),
                       (''blockchain.block.header'', [JInt 4, JInt 0]),
                       (''blockchain.block.header'', [JInt 3, JInt 0])]\<rparr>,
            store := 3\<rparr>)"
  by (simp add: sync_eval backwards_loop.simps)

lemma it2_sibling:
  "sync_iteration (toy_env 0 ''ab'' lying_server)
      ((toy_interface 1 20)\<lparr>session := NotificationSession_init
            \<lparr>msg_counter := 1, sent := [(''blockchain.block.headers'', [JInt 0, JInt 21, JInt 0])]\<rparr>,
            store := 2\<rparr>)
      (Some Catchup) 4 14
     = Some (Inl (AssertionError ''had to prevent infinite loop in interface.sync_until''),
         (toy_interface 1 20)\<lparr>session := NotificationSession_init
            \<lparr>msg_counter := 3,
              sent := [(''blockchain.block.headers'', [JInt 0, JInt 21, JInt 0]),
                       (''blockchain.block.header'', [JInt 4, JInt 0]),
                       (''blockchain.block.header'', [JInt 3, JInt 0])]\<rparr>,
            store := 3\<rparr>)"
  by (simp add: sync_eval backwards_loop.simps)


text \<open>
  A chunk that connects advances the height to \<open>(height // 2016) * 2016 + num_headers\<close>;
  the pass fails its assertions when that exceeds \<open>next_height + 1\<close> or repeats the pair
  \<open>(last, height)\<close>. A pass can only end with the pair it started from after a chunk
  that did not connect.
\<close>

lemma sync_iteration_chunk_connected:
  assumes "next_height > height + 10"
    and "request_chunk env st height (Some next_height) False = (Inr (Some (True, num_headers)), st1)"
    and "py_num num_headers = Inr n"
  shows "sync_iteration env st last' height next_height =
     Some (if \<not> height div 2016 * 2016 + n \<le> next_height + 1
           then Inl (AssertionError ''height <= next_height+1'')
           else if (last', height) = (Some Catchup, height div 2016 * 2016 + n)
           then Inl (AssertionError ''had to prevent infinite loop in interface.sync_until'')
           else Inr (Catchup, height div 2016 * 2016 + n), st1)"
  using assms by (simp add: sync_iteration_def Let_def)

lemma sync_iteration_repeat_only_after_failed_chunk:
  assumes "sync_iteration env st last' height next_height = Some (Inr (last1, height1), st')"
    and "(last', height) = (Some last1, height1)"
  shows "next_height > height + 10 \<and>
     (\<exists>n st1. request_chunk env st height (Some next_height) False = (Inr (Some (False, n)), st1))"
proof (cases "next_height > height + 10")
  case False
  then show ?thesis
    using assms by (auto simp: sync_iteration_def split: option.splits prod.splits sum.splits if_splits)
next
  case True
  obtain r st1 where rc: "request_chunk env st height (Some next_height) False = (r, st1)"
    by (cases "request_chunk env st height (Some next_height) False") auto
  show ?thesis
    using assms True rc
    by (auto simp: sync_iteration_def Let_def split: option.splits sum.splits if_splits)
qed

text \<open>
  Claim C4 says that the pair \<open>(last, height)\<close> never repeats across two consecutive
  iterations of \<^verbatim>\<open>sync_until\<close>. In \<^verbatim>\<open>sync_until(2, 20)\<close> against the peer above, on a
  chain of height 1, the first iteration connects the chunk and moves to
  \<open>('catchup', 4)\<close>; in the second the chunk does not connect, \<^verbatim>\<open>step(4)\<close> probes
  backwards, connects the header at height 3 and returns \<open>('catchup', 4)\<close>, and the loop
  goes on with the pair it had: the \<^verbatim>\<open>continue\<close> skips the assertion. With
  \<open>next_height = 14\<close> the same iteration takes the other branch, where the same result
  of \<^verbatim>\<open>step\<close> fails the assertion.
\<close>

theorem sync_until_repeats_pair_after_failed_chunk:
  "sync_iteration (toy_env 0 ''ab'' lying_server) (toy_interface 1 20) None 2 20
     = Some (Inr (Catchup, 4),
         (toy_interface 1 20)\<lparr>session := NotificationSession_init
            \<lparr>msg_counter := 1, sent := [(''blockchain.block.headers'', [JInt 0, JInt 21, JInt 0])]\<rparr>,
            store := 2\<rparr>)
   \<and> sync_iteration (toy_env 0 ''ab'' lying_server)
      ((toy_interface 1 20)\<lparr>session := NotificationSession_init
            \<lparr>msg_counter := 1, sent := [(''blockchain.block.headers'', [JInt 0, JInt 21, JInt 0])]\<rparr>,
            store := 2\<rparr>)
      (Some Catchup) 4 20
     = Some (Inr (Catchup, 4),
         (toy_interface 1 20)\<lparr>session := NotificationSession_init
            \<lparr>msg_counter := 4,
              sent := [(''blockchain.block.headers'', [JInt 0, JInt 21, JInt 0]),
                       (''blockchain.block.headers'', [JInt 0, JInt 21, JInt 0]),
                       (''blockchain.block.header'', [JInt 4, JInt 0]),
                       (''blockchain.block.header'', [JInt 3, JInt 0])]\<rparr>,
            store := 3\<rparr>)
   \<and> sync_until (toy_env 0 ''ab'' lying_server) (toy_interface 1 20) 2 (Some 20)
     = sync_loop (toy_env 0 ''ab'' lying_server)
         ((toy_interface 1 20)\<lparr>session := NotificationSession_init
            \<lparr>msg_counter := 4,
              sent := [(''blockchain.block.headers'', [JInt 0, JInt 21, JInt 0]),
                       (''blockchain.block.headers'', [JInt 0, JInt 21, JInt 0]),
                       (''blockchain.block.header'', [JInt 4, JInt 0]),
                       (''blockchain.block.header'', [JInt 3, JInt 0])]\<rparr>,
            store := 3\<rparr>)
         (Some Catchup) 4 20
   \<and> sync_iteration (toy_env 0 ''ab'' lying_server)
      ((toy_interface 1 20)\<lparr>session := NotificationSession_init
            \<lparr>msg_counter := 1, sent := [(''blockchain.block.headers'', [JInt 0, JInt 21, JInt 0])]\<rparr>,
            store := 2\<rparr>)
      (Some Catchup) 4 14
     = Some (Inl (AssertionError ''had to prevent infinite loop in interface.sync_until''),
         (toy_interface 1 20)\<lparr>session := NotificationSession_init
            \<lparr>msg_counter := 3,
              sent := [(''blockchain.block.headers'', [JInt 0, JInt 21, JInt 0]),
                       (''blockchain.block.header'', [JInt 4, JInt 0]),
                       (''blockchain.block.header'', [JInt 3, JInt 0])]\<rparr>,
            store := 3\<rparr>)"
proof -
  let ?E = "toy_env 0 ''ab'' lying_server"
  let ?st0 = "toy_interface 1 20"
  let ?st1 = "?st0\<lparr>session := NotificationSession_init
            \<lparr>msg_counter := 1, sent := [(''blockchain.block.headers'', [JInt 0, JInt 21, JInt 0])]\<rparr>,
            store := 2\<rparr>"
  let ?st2 = "?st0\<lparr>session := NotificationSession_init
            \<lparr>msg_counter := 4,
              sent := [(''blockchain.block.headers'', [JInt 0, JInt 21, JInt 0]),
                       (''blockchain.block.headers'', [JInt 0, JInt 21, JInt 0]),
                       (''blockchain.block.header'', [JInt 4, JInt 0]),
                       (''blockchain.block.header'', [JInt 3, JInt 0])]\<rparr>,
            store := 3\<rparr>"
  have a: "sync_loop ?E ?st0 None 2 20 = sync_loop ?E ?st1 (Some Catchup) 4 20"
    by (subst sync_loop.simps) (simp add: it1)
  have b: "sync_loop ?E ?st1 (Some Catchup) 4 20 = sync_loop ?E ?st2 (Some Catchup) 4 20"
    by (subst sync_loop.simps) (simp add: it2)
  have c: "sync_until ?E ?st0 2 (Some 20) = sync_loop ?E ?st2 (Some Catchup) 4 20"
    using a b by (simp add: sync_until_def)
  show ?thesis using it1 it2 c it2_sibling by (simp only: simp_thms)
qed


end
